theory Spec2Isabelle
  imports
    Complex_Main
    "HOL-Library.Word"
    "HOL-Library.Signed_Division"
    "HOL-Library.AList"
begin

section \<open>Strings, exceptions, machine integers, decimals\<close>

text \<open>
  A C\# \<open>string\<close> is a sequence of UTF-16 code units. Text that the source writes as a
  literal is ASCII; \<open>utf16\<close> gives its code units.
\<close>

type_synonym char16 = "16 word"
type_synonym cstring = "char16 list"

definition utf16 :: "string \<Rightarrow> cstring" where
  "utf16 s = map (\<lambda>c. of_nat (of_char c)) s"

text \<open>
  A C\# exception is a value: its type and its \<open>Message\<close>. A computation that may throw
  returns \<open>exn + 'a\<close>, with \<open>Inl\<close> for the exception that leaves the method.
\<close>

datatype exn_type =
    InvalidOperationException
  | ArgumentOutOfRangeException
  | KeyNotFoundException
  | ArgumentException
  | OperationCanceledException
  | DivideByZeroException
  | OverflowException
  | ExternalException

datatype exn = Exn (ExnType: exn_type) (ExnMessage: cstring)

text \<open>
  \<open>int\<close> of C\# is a 32-bit two's complement integer in an unchecked context: \<open>+\<close> and
  \<open>-\<close> wrap, comparisons read the sign (\<open>sint\<close>), \<open>%\<close> truncates towards zero and
  throws on a zero divisor. \<open>decimal\<close> is modelled by the exact rationals: the rounding
  of its arithmetic to 28 digits and the overflow of its arithmetic are outside the
  model. \<open>DateOnly\<close> is its day number.
\<close>

type_synonym int32 = "32 word"
type_synonym decimal = rat
type_synonym DateOnly = nat

definition Math_Max :: "int32 \<Rightarrow> int32 \<Rightarrow> int32" where
  "Math_Max a b = (if word_sle b a then a else b)"

definition Int32_MinValue :: int32 where
  "Int32_MinValue = word_of_int (- 2147483648)"

definition rem32 :: "int32 \<Rightarrow> int32 \<Rightarrow> exn + int32" where
  "rem32 a b =
     (if b = 0 then Inl (Exn DivideByZeroException (utf16 ''Attempted to divide by zero.''))
      else if a = Int32_MinValue \<and> b = - 1
        then Inl (Exn OverflowException (utf16 ''Arithmetic operation resulted in an overflow.''))
      else Inr (word_of_int (sint a smod sint b)))"


definition decimal_MinValue :: decimal where
  "decimal_MinValue = - 79228162514264337593543950335"

definition round_half_even :: "decimal \<Rightarrow> int" where
  "round_half_even q =
     (let f = \<lfloor>q\<rfloor>; d = q - of_int f
      in if d < 1 / 2 then f else if 1 / 2 < d then f + 1 else if even f then f else f + 1)"

definition decimal_Round :: "decimal \<Rightarrow> nat \<Rightarrow> decimal" where
  "decimal_Round x n = of_int (round_half_even (x * 10 ^ n)) / 10 ^ n"

subsection \<open>The base class library\<close>

text \<open>
  The tables and the floating-point routines of the .NET base class library are not part
  of the repository; they are parameters of the model:

    \<^item> \<open>IsWhiteSpace\<close> is \<open>char.IsWhiteSpace\<close>, the table of white-space characters;
    \<^item> \<open>ToUpperInvariant\<close> is \<open>string.ToUpperInvariant\<close>;
    \<^item> \<open>StartsWith\<close> and \<open>EndsWith\<close> are the culture-sensitive \<open>string.StartsWith\<close> and
      \<open>string.EndsWith\<close>;
    \<^item> \<open>PowDecimal x y\<close> is \<open>(decimal)Math.Pow((double)x, (double)y)\<close> and \<open>SqrtDecimal x\<close>
      is \<open>(decimal)Math.Sqrt((double)x)\<close>: the conversion back to \<open>decimal\<close> throws an
      \<open>OverflowException\<close> when the double is not a number or lies outside the range of
      \<open>decimal\<close>.

  \<open>string.Trim()\<close> removes the leading and trailing white-space characters, and
  \<open>string.IsNullOrWhiteSpace\<close> holds of \<open>null\<close> (\<open>None\<close>) and of a string of white-space
  characters only.
\<close>

record runtime =
  IsWhiteSpace :: "char16 \<Rightarrow> bool"
  ToUpperInvariant :: "cstring \<Rightarrow> cstring"
  StartsWith :: "cstring \<Rightarrow> cstring \<Rightarrow> bool"
  EndsWith :: "cstring \<Rightarrow> cstring \<Rightarrow> bool"
  PowDecimal :: "decimal \<Rightarrow> decimal \<Rightarrow> exn + decimal"
  SqrtDecimal :: "decimal \<Rightarrow> exn + decimal"

definition Trim :: "runtime \<Rightarrow> cstring \<Rightarrow> cstring" where
  "Trim rt s = rev (dropWhile (IsWhiteSpace rt) (rev (dropWhile (IsWhiteSpace rt) s)))"

definition IsNullOrWhiteSpace :: "runtime \<Rightarrow> cstring option \<Rightarrow> bool" where
  "IsNullOrWhiteSpace rt s = (case s of None \<Rightarrow> True | Some t \<Rightarrow> list_all (IsWhiteSpace rt) t)"

definition Truncate :: "cstring \<Rightarrow> nat \<Rightarrow> cstring" where
  "Truncate v maxLength = (if v = [] \<or> length v \<le> maxLength then v else take maxLength v)"

section \<open>Collections\<close>

text \<open>
  \<open>Enumerable.Distinct\<close> and \<open>ToHashSet\<close> keep the first occurrence of every element.
  A \<open>HashSet\<close> is a duplicate-free list; a \<open>Dictionary\<close> is an association list with
  distinct keys, in insertion order. \<open>ToDictionary\<close> throws on a duplicate key, the
  indexer \<open>d[k]\<close> throws on a missing key, a list's indexer throws out of range.
\<close>

fun Distinct :: "'a list \<Rightarrow> 'a list" where
  "Distinct [] = []"
| "Distinct (x # xs) = x # Distinct (filter (\<lambda>y. y \<noteq> x) xs)"

definition ToHashSet :: "'a list \<Rightarrow> 'a list" where
  "ToHashSet xs = Distinct xs"

definition IntersectWith :: "'a list \<Rightarrow> 'a list \<Rightarrow> 'a list" where
  "IntersectWith s other = filter (\<lambda>x. x \<in> set other) s"

definition OrderByDescending :: "('a \<Rightarrow> decimal) \<Rightarrow> 'a list \<Rightarrow> 'a list" where
  "OrderByDescending key xs = sort_key (\<lambda>x. - key x) xs"

definition TakeLast :: "nat \<Rightarrow> 'a list \<Rightarrow> 'a list" where
  "TakeLast n xs = drop (length xs - n) xs"

definition ToDictionary :: "('k \<times> 'v) list \<Rightarrow> exn + ('k \<times> 'v) list" where
  "ToDictionary kvs =
     (if distinct (map fst kvs) then Inr kvs
      else Inl (Exn ArgumentException (utf16 ''An item with the same key has already been added.'')))"

definition Lookup :: "('k \<times> 'v) list \<Rightarrow> 'k \<Rightarrow> exn + 'v" where
  "Lookup d k =
     (case map_of d k of
        Some v \<Rightarrow> Inr v
      | None \<Rightarrow> Inl (Exn KeyNotFoundException (utf16 ''The given key was not present in the dictionary.'')))"

definition Item :: "'a list \<Rightarrow> int32 \<Rightarrow> exn + 'a" where
  "Item xs i =
     (if 0 \<le> sint i \<and> sint i < int (length xs) then Inr (xs ! nat (sint i))
      else Inl (Exn ArgumentOutOfRangeException (utf16 ''Index was out of range.'')))"

text \<open>Sequencing of computations that may throw.\<close>

definition bindE :: "exn + 'a \<Rightarrow> ('a \<Rightarrow> exn + 'b) \<Rightarrow> exn + 'b" where
  "bindE m f = (case m of Inl e \<Rightarrow> Inl e | Inr x \<Rightarrow> f x)"

fun mapM :: "('a \<Rightarrow> exn + 'b) \<Rightarrow> 'a list \<Rightarrow> exn + 'b list" where
  "mapM f [] = Inr []"
| "mapM f (x # xs) = bindE (f x) (\<lambda>y. bindE (mapM f xs) (\<lambda>ys. Inr (y # ys)))"

section \<open>Models\<close>

datatype JsonElement =
    Object "(cstring \<times> JsonElement) list"
  | Array "JsonElement list"
  | Scalar

record BacktestConfig =
  Symbols :: "cstring list"
  StartDate :: DateOnly
  EndDate :: DateOnly
  InitialCapital :: decimal
  LookbackDays :: int32
  RebalanceFrequencyDays :: int32
  LongCount :: int32
  ShortCount :: int32
  StrategyCode :: "cstring option"
  StrategyParams :: "(cstring \<times> JsonElement) list option"
  FallbackToBuiltinOnPythonError :: bool

record PythonExecutionSummary =
  Requested :: bool
  Executed :: bool
  Succeeded :: bool
  UsedFallback :: bool
  Message :: cstring
  SignalDates :: nat
  StderrSnippet :: "cstring option"
  ErrorType :: "cstring option"

datatype PriceBar =
  PriceBar (Date: DateOnly) (Open: decimal) (High: decimal) (Low: decimal)
    (Close: decimal) (Volume: decimal)

datatype EquityPoint = EquityPoint cstring decimal decimal
datatype DrawdownPoint = DrawdownPoint cstring decimal
datatype DailyReturnPoint = DailyReturnPoint cstring (DailyReturn: decimal)
datatype HoldingPoint = HoldingPoint cstring decimal decimal
datatype TransactionPoint = TransactionPoint cstring cstring cstring decimal decimal decimal

record BacktestMetrics =
  Cagr :: decimal
  AnnualizedVolatility :: decimal
  Sharpe :: decimal
  MaxDrawdown :: decimal
  HitRate :: decimal
  TurnoverPct :: decimal

type_synonym Signals = "(cstring \<times> (cstring \<times> decimal) list) list"

type_synonym PythonSignalsResult = "PythonExecutionSummary \<times> Signals option"

section \<open>The scoring sandbox: \<open>PythonStrategyService\<close>\<close>

subsection \<open>Validation of the strategy parameters\<close>

text \<open>
  \<open>Traverse\<close> is the local function of \<open>IsWithinDepthAndSize\<close>; the captured counter
  \<open>nodesVisited\<close> is passed in and returned. \<open>All\<close> stops at the first \<open>false\<close>.
  The counter stops at \<open>maxNodes + 1\<close> and the depth at \<open>maxDepth + 1\<close>, so neither
  overflows and both are natural numbers here.
\<close>

fun Traverse :: "nat \<Rightarrow> nat \<Rightarrow> JsonElement \<Rightarrow> nat \<Rightarrow> nat \<Rightarrow> bool \<times> nat"
  and TraverseProps :: "nat \<Rightarrow> nat \<Rightarrow> (cstring \<times> JsonElement) list \<Rightarrow> nat \<Rightarrow> nat \<Rightarrow> bool \<times> nat"
  and TraverseItems :: "nat \<Rightarrow> nat \<Rightarrow> JsonElement list \<Rightarrow> nat \<Rightarrow> nat \<Rightarrow> bool \<times> nat"
where
  "Traverse maxDepth maxNodes (Object props) depth nodesVisited =
     (if maxNodes < nodesVisited + 1 \<or> maxDepth < depth then (False, nodesVisited + 1)
      else TraverseProps maxDepth maxNodes props (depth + 1) (nodesVisited + 1))"
| "Traverse maxDepth maxNodes (Array items) depth nodesVisited =
     (if maxNodes < nodesVisited + 1 \<or> maxDepth < depth then (False, nodesVisited + 1)
      else TraverseItems maxDepth maxNodes items (depth + 1) (nodesVisited + 1))"
| "Traverse maxDepth maxNodes Scalar depth nodesVisited =
     (if maxNodes < nodesVisited + 1 \<or> maxDepth < depth then (False, nodesVisited + 1)
      else (True, nodesVisited + 1))"
| "TraverseProps maxDepth maxNodes [] depth nodesVisited = (True, nodesVisited)"
| "TraverseProps maxDepth maxNodes (property # rest) depth nodesVisited =
     (case Traverse maxDepth maxNodes (snd property) depth nodesVisited of
        (False, n) \<Rightarrow> (False, n)
      | (True, n) \<Rightarrow> TraverseProps maxDepth maxNodes rest depth n)"
| "TraverseItems maxDepth maxNodes [] depth nodesVisited = (True, nodesVisited)"
| "TraverseItems maxDepth maxNodes (item # rest) depth nodesVisited =
     (case Traverse maxDepth maxNodes item depth nodesVisited of
        (False, n) \<Rightarrow> (False, n)
      | (True, n) \<Rightarrow> TraverseItems maxDepth maxNodes rest depth n)"

definition IsWithinDepthAndSize :: "JsonElement \<Rightarrow> nat \<Rightarrow> nat \<Rightarrow> bool" where
  "IsWithinDepthAndSize element maxDepth maxNodes = fst (Traverse maxDepth maxNodes element 0 0)"

definition quoted :: "cstring \<Rightarrow> cstring" where
  "quoted s = [0x22] @ s @ [0x22]"

fun ValidateParamsLoop :: "(cstring \<times> JsonElement) list \<Rightarrow> cstring option" where
  "ValidateParamsLoop [] = None"
| "ValidateParamsLoop (kvp # rest) =
     (if 120 < length (fst kvp)
        then Some (utf16 ''Param key '' @ quoted (fst kvp) @ utf16 '' is too long (max 120 chars).'')
      else if \<not> IsWithinDepthAndSize (snd kvp) 8 10000
        then Some (utf16 ''Param '' @ quoted (fst kvp) @ utf16 '' exceeds supported JSON complexity.'')
      else ValidateParamsLoop rest)"

definition ValidateParams :: "(cstring \<times> JsonElement) list option \<Rightarrow> cstring option" where
  "ValidateParams strategyParams =
     (case strategyParams of
        None \<Rightarrow> None
      | Some ps \<Rightarrow>
          if 200 < length ps then Some (utf16 ''Too many strategy params (max 200).'')
          else ValidateParamsLoop ps)"

text \<open>
  The nesting depth of a JSON value, counted as \<open>Traverse\<close> counts it: the value itself
  is at depth 0, the members of an object or array one deeper.
\<close>

fun nesting :: "JsonElement \<Rightarrow> nat"
  and nestingProps :: "(cstring \<times> JsonElement) list \<Rightarrow> nat"
  and nestingItems :: "JsonElement list \<Rightarrow> nat"
where
  "nesting (Object props) = nestingProps props"
| "nesting (Array items) = nestingItems items"
| "nesting Scalar = 0"
| "nestingProps [] = 0"
| "nestingProps (property # rest) = max (Suc (nesting (snd property))) (nestingProps rest)"
| "nestingItems [] = 0"
| "nestingItems (item # rest) = max (Suc (nesting item)) (nestingItems rest)"

subsection \<open>Reading the subprocess output\<close>

fun Split :: "char16 \<Rightarrow> cstring \<Rightarrow> cstring list" where
  "Split sep [] = [[]]"
| "Split sep (c # cs) =
     (if c = sep then [] # Split sep cs
      else (case Split sep cs of [] \<Rightarrow> [[c]] | w # ws \<Rightarrow> (c # w) # ws))"

text \<open>
  \<open>Split('\n', RemoveEmptyEntries | TrimEntries)\<close> trims every entry and drops the empty
  ones; the lines are searched from the last one.
\<close>

definition ExtractSignalJson :: "runtime \<Rightarrow> cstring \<Rightarrow> cstring option" where
  "ExtractSignalJson rt stdout =
     (if IsNullOrWhiteSpace rt (Some stdout) then None
      else
        let lines = rev (filter (\<lambda>l. l \<noteq> []) (map (Trim rt) (Split 0x0A stdout)))
        in find (\<lambda>line. StartsWith rt line (utf16 ''{'') \<and> EndsWith rt line (utf16 ''}'')) lines)"

subsection \<open>The input payload\<close>

record InputPayload =
  payload_dates :: "DateOnly list"
  payload_symbols :: "cstring list"
  payload_close :: "(cstring \<times> (DateOnly \<times> decimal) list) list"
  payload_returns :: "(cstring \<times> (DateOnly \<times> decimal) list) list"

text \<open>
  The inner loop of \<open>BuildInputPayload\<close> over the dates, for one symbol. The series are
  keyed by the date itself; its rendering as \<open>yyyy-MM-dd\<close> is one-to-one.
\<close>

fun SeriesLoop ::
  "(DateOnly \<times> decimal) list \<Rightarrow> DateOnly list \<Rightarrow> decimal option \<Rightarrow>
   (DateOnly \<times> decimal) list \<Rightarrow> (DateOnly \<times> decimal) list \<Rightarrow>
   (DateOnly \<times> decimal) list \<times> (DateOnly \<times> decimal) list"
where
  "SeriesLoop byDate [] prevClose closeSeries returnSeries = (closeSeries, returnSeries)"
| "SeriesLoop byDate (date # rest) prevClose closeSeries returnSeries =
     (case map_of byDate date of
        None \<Rightarrow> SeriesLoop byDate rest prevClose closeSeries returnSeries
      | Some c \<Rightarrow>
          let ret = (case prevClose of
                       None \<Rightarrow> 0
                     | Some p \<Rightarrow> if p = 0 then 0 else c / p - 1)
          in SeriesLoop byDate rest (Some c)
               (AList.update date c closeSeries) (AList.update date ret returnSeries))"

fun PayloadLoop ::
  "DateOnly list \<Rightarrow> (cstring \<times> PriceBar list) list \<Rightarrow>
   (cstring \<times> (DateOnly \<times> decimal) list) list \<Rightarrow> (cstring \<times> (DateOnly \<times> decimal) list) list \<Rightarrow>
   exn + (cstring \<times> (DateOnly \<times> decimal) list) list \<times> (cstring \<times> (DateOnly \<times> decimal) list) list"
where
  "PayloadLoop dates [] close returns = Inr (close, returns)"
| "PayloadLoop dates (entry # rest) close returns =
     bindE (ToDictionary (map (\<lambda>x. (Date x, Close x)) (snd entry))) (\<lambda>byDate.
       let series = SeriesLoop byDate dates None [] []
       in PayloadLoop dates rest
            (AList.update (fst entry) (fst series) close)
            (AList.update (fst entry) (snd series) returns))"

definition BuildInputPayload ::
  "BacktestConfig \<Rightarrow> DateOnly list \<Rightarrow> (cstring \<times> PriceBar list) list \<Rightarrow> exn + InputPayload"
where
  "BuildInputPayload config dates barsBySymbol =
     bindE (PayloadLoop dates barsBySymbol [] []) (\<lambda>tables.
       Inr \<lparr>payload_dates = dates, payload_symbols = map fst barsBySymbol,
            payload_close = fst tables, payload_returns = snd tables\<rparr>)"

subsection \<open>File system and subprocess\<close>

text \<open>
  The calls that leave the process are recorded in a log, in the order they are made, and
  their outcomes are given by an environment: \<open>None\<close> for a call that returns, \<open>Some e\<close>
  for one that throws \<open>e\<close>. \<open>WhenAny\<close> is the task that \<open>Task.WhenAny(waitTask,
  timeoutTask)\<close> returns: \<open>TimeoutTask\<close> when the 15 second delay completes before the
  subprocess has exited.
\<close>

datatype effect =
    EffCreateDirectory
  | EffWriteAllText string
  | EffProcessStart
  | EffProcessKillTree
  | EffLogWarning
  | EffDirectoryDelete

datatype task = WaitTask | TimeoutTask

record sandbox_env =
  SandboxRuntime :: runtime
  CreateDirectory :: "exn option"
  WriteAllText :: "string \<Rightarrow> exn option"
  ProcessStart :: "exn option"
  WhenAny :: task
  ProcessKill :: "exn option"
  AwaitWaitTask :: "exn option"
  AwaitStdoutTask :: "exn + cstring"
  AwaitStderrTask :: "exn + cstring"
  ExitCode :: int32
  Deserialize :: "cstring \<Rightarrow> exn + Signals option"
  DirectoryDelete :: "exn option"

type_synonym 'a io = "effect list \<Rightarrow> (exn + 'a) \<times> effect list"

definition io_return :: "'a \<Rightarrow> 'a io" where
  "io_return x = (\<lambda>trace. (Inr x, trace))"

definition io_bind :: "'a io \<Rightarrow> ('a \<Rightarrow> 'b io) \<Rightarrow> 'b io" where
  "io_bind m f = (\<lambda>trace. case m trace of (Inl e, trace') \<Rightarrow> (Inl e, trace') | (Inr x, trace') \<Rightarrow> f x trace')"

definition io_call :: "effect \<Rightarrow> exn option \<Rightarrow> unit io" where
  "io_call eff outcome =
     (\<lambda>trace. (case outcome of None \<Rightarrow> Inr () | Some e \<Rightarrow> Inl e, trace @ [eff]))"

definition io_lift :: "exn + 'a \<Rightarrow> 'a io" where
  "io_lift r = (\<lambda>trace. (r, trace))"

definition io_await :: "exn option \<Rightarrow> unit io" where
  "io_await outcome = (\<lambda>trace. (case outcome of None \<Rightarrow> Inr () | Some e \<Rightarrow> Inl e, trace))"

text \<open>\<open>try { m } catch { }\<close>, \<open>try { m } catch (Exception ex) { h ex }\<close> and
  \<open>try { m } finally { f }\<close>.\<close>

definition io_ignore :: "unit io \<Rightarrow> unit io" where
  "io_ignore m = (\<lambda>trace. (Inr (), snd (m trace)))"

definition io_catch :: "'a io \<Rightarrow> (exn \<Rightarrow> 'a io) \<Rightarrow> 'a io" where
  "io_catch m h = (\<lambda>trace. case m trace of (Inl e, trace') \<Rightarrow> h e trace' | (Inr x, trace') \<Rightarrow> (Inr x, trace'))"

definition io_finally :: "'a io \<Rightarrow> unit io \<Rightarrow> 'a io" where
  "io_finally m f =
     (\<lambda>trace. case m trace of
        (r, trace') \<Rightarrow> (case f trace' of (Inl e, trace'') \<Rightarrow> (Inl e, trace'') | (Inr u, trace'') \<Rightarrow> (r, trace'')))"

definition Summary ::
  "bool \<Rightarrow> bool \<Rightarrow> bool \<Rightarrow> bool \<Rightarrow> cstring \<Rightarrow> nat \<Rightarrow> cstring option \<Rightarrow> cstring option \<Rightarrow>
   PythonExecutionSummary"
where
  "Summary requested executed succeeded usedFallback message signalDates stderrSnippet errorType =
     \<lparr>Requested = requested, Executed = executed, Succeeded = succeeded,
      UsedFallback = usedFallback, Message = message, SignalDates = signalDates,
      StderrSnippet = stderrSnippet, ErrorType = errorType\<rparr>"

definition AfterExit :: "sandbox_env \<Rightarrow> PythonSignalsResult io" where
  "AfterExit env =
     io_bind (io_await (AwaitWaitTask env)) (\<lambda>u.
     io_bind (io_lift (AwaitStdoutTask env)) (\<lambda>stdout.
     io_bind (io_lift (AwaitStderrTask env)) (\<lambda>stderrText.
       let stderr = Truncate stderrText 3000 in
       if ExitCode env \<noteq> 0 then
         io_bind (io_call EffLogWarning None) (\<lambda>u.
           io_return
             (Summary True True False False (utf16 ''Python strategy exited with non-zero status.'') 0
                (Some stderr) (Some (utf16 ''runtime'')), None))
       else
         (case ExtractSignalJson (SandboxRuntime env) stdout of
            None \<Rightarrow>
              io_return
                (Summary True True False False
                   (utf16 ''Python strategy did not produce valid JSON output.'') 0
                   (Some stderr) (Some (utf16 ''output'')), None)
          | Some signalJson \<Rightarrow>
              io_bind (io_lift (Deserialize env signalJson)) (\<lambda>deserialized.
                let parsed = (case deserialized of None \<Rightarrow> [] | Some d \<Rightarrow> d) in
                io_return
                  (Summary True True True False (utf16 ''Python strategy executed successfully.'')
                     (length parsed)
                     (if IsNullOrWhiteSpace (SandboxRuntime env) (Some stderr) then None
                      else Some stderr) None,
                   Some parsed))))))"

definition TryBlock ::
  "sandbox_env \<Rightarrow> BacktestConfig \<Rightarrow> DateOnly list \<Rightarrow> (cstring \<times> PriceBar list) list \<Rightarrow>
   PythonSignalsResult io"
where
  "TryBlock env config dates barsBySymbol =
     io_bind (io_call (EffWriteAllText ''strategy.py'') (WriteAllText env ''strategy.py'')) (\<lambda>u.
     io_bind (io_call (EffWriteAllText ''strategy_params.json'')
                (WriteAllText env ''strategy_params.json'')) (\<lambda>u.
     io_bind (io_lift (BuildInputPayload config dates barsBySymbol)) (\<lambda>payload.
     io_bind (io_call (EffWriteAllText ''strategy_input.json'')
                (WriteAllText env ''strategy_input.json'')) (\<lambda>u.
     io_bind (io_call (EffWriteAllText ''runner.py'') (WriteAllText env ''runner.py'')) (\<lambda>u.
     io_bind (io_call EffProcessStart (ProcessStart env)) (\<lambda>u.
       (case WhenAny env of
          TimeoutTask \<Rightarrow>
            io_bind (io_ignore (io_call EffProcessKillTree (ProcessKill env))) (\<lambda>u.
              io_return
                (Summary True True False False (utf16 ''Python strategy timed out after 15 seconds.'') 0
                   None (Some (utf16 ''timeout'')), None))
        | WaitTask \<Rightarrow> AfterExit env)))))))"

definition CatchBlock :: "exn \<Rightarrow> PythonSignalsResult io" where
  "CatchBlock ex =
     io_bind (io_call EffLogWarning None) (\<lambda>u.
       io_return
         (Summary True False False False (utf16 ''Python strategy execution failed unexpectedly.'') 0
            (Some (Truncate (ExnMessage ex) 3000)) (Some (utf16 ''exception'')), None))"

definition BuildSignalsByDateAsync ::
  "sandbox_env \<Rightarrow> BacktestConfig \<Rightarrow> DateOnly list \<Rightarrow> (cstring \<times> PriceBar list) list \<Rightarrow>
   (exn + PythonSignalsResult) \<times> effect list"
where
  "BuildSignalsByDateAsync env config dates barsBySymbol =
     (if IsNullOrWhiteSpace (SandboxRuntime env) (StrategyCode config) then
        (Inr (Summary False False True False
                (utf16 ''No custom strategyCode provided. Using built-in momentum ranking.'') 0
                None None, None), [])
      else if 200000 < length (case StrategyCode config of None \<Rightarrow> [] | Some code \<Rightarrow> code) then
        (Inr (Summary True False False False (utf16 ''Strategy code is too large.'') 0
                None (Some (utf16 ''validation'')), None), [])
      else
        (case ValidateParams (StrategyParams config) of
           Some paramValidationError \<Rightarrow>
             (Inr (Summary True False False False paramValidationError 0
                     None (Some (utf16 ''validation'')), None), [])
         | None \<Rightarrow>
             io_bind (io_call EffCreateDirectory (CreateDirectory env)) (\<lambda>u.
               io_finally
                 (io_catch (TryBlock env config dates barsBySymbol) CatchBlock)
                 (io_ignore (io_call EffDirectoryDelete (DirectoryDelete env)))) []))"

section \<open>The metrics: \<open>MetricsCalculator.ComputeMetrics\<close>\<close>

text \<open>
  The loop over the NAV series that finds the largest drawdown from the running peak.
\<close>

fun DrawdownLoop :: "decimal list \<Rightarrow> decimal \<Rightarrow> decimal \<Rightarrow> decimal" where
  "DrawdownLoop [] peak maxDrawdown = maxDrawdown"
| "DrawdownLoop (nav # rest) peak maxDrawdown =
     (let peak = max peak nav in
      if peak = 0 then DrawdownLoop rest peak maxDrawdown
      else
        let drawdown = nav / peak - 1
        in DrawdownLoop rest peak (if drawdown < maxDrawdown then drawdown else maxDrawdown))"

definition ZeroMetrics :: BacktestMetrics where
  "ZeroMetrics = \<lparr>Cagr = 0, AnnualizedVolatility = 0, Sharpe = 0, MaxDrawdown = 0,
                  HitRate = 0, TurnoverPct = 0\<rparr>"

text \<open>
  The compound annual growth rate raises the NAV ratio to the power \<open>1 / years\<close> in
  double precision and converts the power back to \<open>decimal\<close>; the daily standard
  deviation and the annualization factor \<open>Math.Sqrt(252d)\<close> are converted likewise.
\<close>

definition ComputeMetrics ::
  "runtime \<Rightarrow> decimal list \<Rightarrow> decimal list \<Rightarrow> decimal \<Rightarrow> exn + BacktestMetrics"
where
  "ComputeMetrics rt navSeries dailyReturns totalTurnover =
     (if length navSeries < 2 \<or> length dailyReturns = 0 then Inr ZeroMetrics
      else
        let startNav = hd navSeries;
            endNav = last navSeries;
            count = of_nat (length dailyReturns);
            years = max (1 / 252) (count / 252)
        in
        bindE (if 0 < startNav
               then bindE (PowDecimal rt (endNav / startNav) (1 / years)) (\<lambda>power. Inr (power - 1))
               else Inr 0) (\<lambda>cagr.
          let avg = sum_list dailyReturns / count;
              variance = (\<Sum>r\<leftarrow>dailyReturns. (r - avg) * (r - avg)) / count
          in
          bindE (SqrtDecimal rt variance) (\<lambda>dailyStd.
          bindE (SqrtDecimal rt 252) (\<lambda>root.
            let annualizedVol = dailyStd * root in
            bindE (if dailyStd = 0 then Inr 0
                   else bindE (SqrtDecimal rt 252) (\<lambda>root. Inr (avg / dailyStd * root)))
              (\<lambda>sharpe.
                let maxDrawdown = DrawdownLoop navSeries (hd navSeries) 0;
                    hitRate = of_nat (length (filter (\<lambda>r. 0 < r) dailyReturns)) / count;
                    turnoverPct = (if length dailyReturns = 0 then 0 else totalTurnover / count)
                in Inr \<lparr>Cagr = cagr, AnnualizedVolatility = annualizedVol, Sharpe = sharpe,
                         MaxDrawdown = maxDrawdown, HitRate = hitRate,
                         TurnoverPct = turnoverPct\<rparr>)))))"

section \<open>The engine: \<open>BacktestEngine.RunAsync\<close>\<close>

subsection \<open>Collaborators\<close>

text \<open>
  The market data service and the strategy service are injected interfaces; the
  cancellation token is read at the start of every iteration.
  \<open>ComputeLiveStatsSnapshot\<close> computes in double precision floating point throughout and
  converts to \<open>decimal\<close> at the end; it is a parameter here, as is the rendering
  \<open>ToString("yyyy-MM-dd")\<close> of a date. The wall-clock stamps of the result are left out.
\<close>

datatype 's ProgressEvent =
  ProgressEvent decimal cstring EquityPoint DrawdownPoint DailyReturnPoint BacktestMetrics 's

record 's engine_env =
  Runtime :: runtime
  GetBarsAsync :: "cstring \<Rightarrow> DateOnly \<Rightarrow> DateOnly \<Rightarrow> exn + PriceBar list"
  pythonStrategyService ::
    "BacktestConfig \<Rightarrow> DateOnly list \<Rightarrow> (cstring \<times> PriceBar list) list \<Rightarrow> exn + PythonSignalsResult"
  IsCancellationRequested :: "int32 \<Rightarrow> bool"
  ComputeLiveStatsSnapshot ::
    "DateOnly \<Rightarrow> DateOnly \<Rightarrow> decimal \<Rightarrow> decimal \<Rightarrow> BacktestMetrics \<Rightarrow> decimal list \<Rightarrow>
     decimal list \<Rightarrow> (cstring \<times> decimal) list \<Rightarrow> exn + 's"
  DateToString :: "DateOnly \<Rightarrow> cstring"

record 's BacktestResult =
  RunId :: cstring
  Config :: BacktestConfig
  PythonExecution :: PythonExecutionSummary
  Metrics :: BacktestMetrics
  AdditionalStats :: 's
  EquityCurve :: "EquityPoint list"
  DrawdownSeries :: "DrawdownPoint list"
  DailyReturns :: "DailyReturnPoint list"
  TopHoldings :: "HoldingPoint list"
  Transactions :: "TransactionPoint list"

subsection \<open>Setup: symbols, bars, the aligned calendar\<close>

definition NormalizedSymbols :: "runtime \<Rightarrow> BacktestConfig \<Rightarrow> cstring list" where
  "NormalizedSymbols rt config =
     Distinct
       (filter (\<lambda>x. \<not> IsNullOrWhiteSpace rt (Some x))
          (map (\<lambda>x. ToUpperInvariant rt (Trim rt x)) (Symbols config)))"

definition RequiredSymbolCount :: "BacktestConfig \<Rightarrow> int32" where
  "RequiredSymbolCount config = Math_Max 3 (LongCount config + ShortCount config)"

definition LoadBars ::
  "'s engine_env \<Rightarrow> BacktestConfig \<Rightarrow> cstring list \<Rightarrow> exn + (cstring \<times> PriceBar list) list"
where
  "LoadBars env config symbols =
     mapM (\<lambda>symbol.
        bindE (GetBarsAsync env symbol (StartDate config) (EndDate config)) (\<lambda>bars.
          Inr (symbol, sort_key Date bars)))
       symbols"

definition IntersectDates :: "DateOnly list list \<Rightarrow> DateOnly list" where
  "IntersectDates dateCollections =
     (let sets = map ToHashSet dateCollections
      in case sets of
           [] \<Rightarrow> []
         | intersection # rest \<Rightarrow> sort (foldl IntersectWith intersection rest))"

definition CommonDates :: "(cstring \<times> PriceBar list) list \<Rightarrow> DateOnly list" where
  "CommonDates barsBySymbol = IntersectDates (map (\<lambda>x. map Date (snd x)) barsBySymbol)"

record Prepared =
  prep_symbols :: "cstring list"
  prep_barsBySymbol :: "(cstring \<times> PriceBar list) list"
  prep_benchmarkBars :: "PriceBar list"
  prep_commonDates :: "DateOnly list"

definition NotEnoughSymbols :: exn where
  "NotEnoughSymbols =
     Exn InvalidOperationException (utf16 ''Not enough symbols provided for long/short selection.'')"

definition InsufficientCoverage :: exn where
  "InsufficientCoverage =
     Exn InvalidOperationException (utf16 ''Insufficient overlapping date coverage across symbols.'')"

definition Setup :: "'s engine_env \<Rightarrow> BacktestConfig \<Rightarrow> exn + Prepared" where
  "Setup env config =
     (let symbols = NormalizedSymbols (Runtime env) config in
      if int (length symbols) < sint (RequiredSymbolCount config) then Inl NotEnoughSymbols
      else
        bindE (LoadBars env config symbols) (\<lambda>barsBySymbol.
        bindE (GetBarsAsync env (utf16 ''SPY'') (StartDate config) (EndDate config)) (\<lambda>spyBars.
          let benchmarkBars = sort_key Date spyBars;
              commonDates = CommonDates barsBySymbol
          in if int (length commonDates) \<le> sint (LookbackDays config + 2)
             then Inl InsufficientCoverage
             else Inr \<lparr>prep_symbols = symbols, prep_barsBySymbol = barsBySymbol,
                       prep_benchmarkBars = benchmarkBars, prep_commonDates = commonDates\<rparr>)))"

subsection \<open>The scoring outcome and the fallback\<close>

definition PythonFailure :: "runtime \<Rightarrow> PythonExecutionSummary \<Rightarrow> exn" where
  "PythonFailure rt pythonExecution =
     (let detail =
            (if IsNullOrWhiteSpace rt (StderrSnippet pythonExecution) then []
             else utf16 '' stderr: ''
                    @ (case StderrSnippet pythonExecution of None \<Rightarrow> [] | Some snippet \<Rightarrow> snippet))
      in Exn InvalidOperationException
           (utf16 ''Python strategy failed (''
              @ (case ErrorType pythonExecution of None \<Rightarrow> utf16 ''error'' | Some t \<Rightarrow> t)
              @ utf16 ''): '' @ Message pythonExecution @ utf16 ''.'' @ detail))"

definition ApplyFallback ::
  "runtime \<Rightarrow> BacktestConfig \<Rightarrow> PythonSignalsResult \<Rightarrow> exn + PythonSignalsResult"
where
  "ApplyFallback rt config pythonResult =
     (let pythonSignals = snd pythonResult;
          pythonExecution = fst pythonResult
      in if Requested pythonExecution \<and> \<not> Succeeded pythonExecution then
           if \<not> FallbackToBuiltinOnPythonError config then Inl (PythonFailure rt pythonExecution)
           else
             Inr (pythonExecution
                    \<lparr>UsedFallback := True,
                     Message :=
                       Message pythonExecution @ (utf16 '' Falling back to built-in momentum ranking.'')\<rparr>,
                  None)
         else Inr (pythonExecution, pythonSignals))"

subsection \<open>The state of the loop\<close>

type_synonym CloseMap = "(cstring \<times> (DateOnly \<times> decimal) list) list"

record 's Locals =
  env_of :: "'s engine_env"
  config_of :: BacktestConfig
  symbols_of :: "cstring list"
  commonDates_of :: "DateOnly list"
  closeMap_of :: CloseMap
  pythonSignals_of :: "Signals option"
  benchmarkMap_of :: "(DateOnly \<times> decimal) list"
  benchmarkStart_of :: decimal

record 's SimState =
  positions :: "(cstring \<times> decimal) list"
  navSeries :: "decimal list"
  equityCurve :: "EquityPoint list"
  drawdownSeries :: "DrawdownPoint list"
  dailyReturns :: "DailyReturnPoint list"
  benchmarkDailyReturns :: "decimal list"
  txs :: "TransactionPoint list"
  nav :: decimal
  totalTurnover :: decimal
  peakNav :: decimal
  progress :: "'s ProgressEvent list"

definition BuildCloseMap :: "(cstring \<times> PriceBar list) list \<Rightarrow> exn + CloseMap" where
  "BuildCloseMap barsBySymbol =
     mapM (\<lambda>kvp.
        bindE (ToDictionary (map (\<lambda>x. (Date x, Close x)) (snd kvp))) (\<lambda>byDate.
          Inr (fst kvp, byDate)))
       barsBySymbol"

definition ClosePrice :: "CloseMap \<Rightarrow> cstring \<Rightarrow> DateOnly \<Rightarrow> exn + decimal" where
  "ClosePrice closeMap symbol date = bindE (Lookup closeMap symbol) (\<lambda>series. Lookup series date)"

definition BenchmarkStart :: "(DateOnly \<times> decimal) list \<Rightarrow> DateOnly list \<Rightarrow> exn + decimal" where
  "BenchmarkStart benchmarkMap commonDates =
     bindE (Item commonDates 0) (\<lambda>first.
       case map_of benchmarkMap first of
         Some bStart \<Rightarrow> Inr bStart
       | None \<Rightarrow>
           (case benchmarkMap of
              [] \<Rightarrow> Inl (Exn InvalidOperationException (utf16 ''Sequence contains no elements''))
            | kv # rest \<Rightarrow> Inr (snd kv)))"

definition InitialState :: "BacktestConfig \<Rightarrow> cstring list \<Rightarrow> 's SimState" where
  "InitialState config symbols =
     \<lparr>positions = map (\<lambda>s. (s, 0)) symbols,
      navSeries = [InitialCapital config],
      equityCurve = [], drawdownSeries = [], dailyReturns = [], benchmarkDailyReturns = [],
      txs = [],
      nav = InitialCapital config, totalTurnover = 0, peakNav = InitialCapital config,
      progress = []\<rparr>"

subsection \<open>One day: return, benchmark, drawdown\<close>

fun DailyReturnLoop ::
  "CloseMap \<Rightarrow> (cstring \<times> decimal) list \<Rightarrow> DateOnly \<Rightarrow> DateOnly \<Rightarrow> cstring list \<Rightarrow> decimal \<Rightarrow>
   exn + decimal"
where
  "DailyReturnLoop closeMap pos prevDate date [] dailyReturn = Inr dailyReturn"
| "DailyReturnLoop closeMap pos prevDate date (symbol # rest) dailyReturn =
     bindE (ClosePrice closeMap symbol prevDate) (\<lambda>prev.
     bindE (ClosePrice closeMap symbol date) (\<lambda>curr.
       if prev = 0 then DailyReturnLoop closeMap pos prevDate date rest dailyReturn
       else
         bindE (Lookup pos symbol) (\<lambda>weight.
           DailyReturnLoop closeMap pos prevDate date rest
             (dailyReturn + weight * (curr / prev - 1)))))"

definition BenchmarkNav ::
  "decimal \<Rightarrow> decimal \<Rightarrow> (DateOnly \<times> decimal) list \<Rightarrow> DateOnly \<Rightarrow> decimal"
where
  "BenchmarkNav initialCapital benchmarkStart benchmarkMap date =
     (if benchmarkStart = 0 then initialCapital
      else (case map_of benchmarkMap date of
              None \<Rightarrow> initialCapital
            | Some benchmarkClose \<Rightarrow> initialCapital * (benchmarkClose / benchmarkStart)))"

definition BenchmarkDailyReturn ::
  "(DateOnly \<times> decimal) list \<Rightarrow> DateOnly \<Rightarrow> DateOnly \<Rightarrow> decimal"
where
  "BenchmarkDailyReturn benchmarkMap prevDate date =
     (case map_of benchmarkMap prevDate of
        None \<Rightarrow> 0
      | Some benchmarkPrev \<Rightarrow>
          if benchmarkPrev = 0 then 0
          else (case map_of benchmarkMap date of
                  None \<Rightarrow> 0
                | Some benchmarkCurr \<Rightarrow> benchmarkCurr / benchmarkPrev - 1))"

subsection \<open>Rebalancing\<close>

definition IsRebalance :: "BacktestConfig \<Rightarrow> int32 \<Rightarrow> exn + bool" where
  "IsRebalance config i =
     bindE (rem32 (i - LookbackDays config) (Math_Max 1 (RebalanceFrequencyDays config)))
       (\<lambda>r. Inr (r = 0))"

definition DefaultRanked ::
  "CloseMap \<Rightarrow> cstring list \<Rightarrow> DateOnly \<Rightarrow> DateOnly \<Rightarrow> exn + (cstring \<times> decimal) list"
where
  "DefaultRanked closeMap symbols lookbackDate date =
     bindE
       (mapM (\<lambda>symbol.
          bindE (ClosePrice closeMap symbol lookbackDate) (\<lambda>startClose.
          bindE (ClosePrice closeMap symbol date) (\<lambda>endClose.
            Inr (symbol, if startClose = 0 then 0 else endClose / startClose - 1))))
          symbols)
       (\<lambda>scored. Inr (OrderByDescending snd scored))"

definition Ranked ::
  "Signals option \<Rightarrow> cstring \<Rightarrow> cstring list \<Rightarrow> (cstring \<times> decimal) list \<Rightarrow> (cstring \<times> decimal) list"
where
  "Ranked pythonSignals dateKey symbols defaultRanked =
     (case pythonSignals of
        None \<Rightarrow> defaultRanked
      | Some signals \<Rightarrow>
          (case map_of signals dateKey of
             None \<Rightarrow> defaultRanked
           | Some dateSignals \<Rightarrow>
               if 0 < length dateSignals then
                 OrderByDescending snd
                   (map (\<lambda>symbol.
                      case map_of dateSignals symbol of
                        Some customScore \<Rightarrow> (symbol, customScore)
                      | None \<Rightarrow> (symbol, decimal_MinValue / 2))
                      symbols)
               else defaultRanked))"

definition LongSelection :: "BacktestConfig \<Rightarrow> (cstring \<times> decimal) list \<Rightarrow> cstring list" where
  "LongSelection config ranked =
     ToHashSet (map fst (take (nat (sint (Math_Max 1 (LongCount config)))) ranked))"

definition ShortSelection :: "BacktestConfig \<Rightarrow> (cstring \<times> decimal) list \<Rightarrow> cstring list" where
  "ShortSelection config ranked =
     ToHashSet (map fst (TakeLast (nat (sint (Math_Max 1 (ShortCount config)))) ranked))"

definition NextWeights ::
  "BacktestConfig \<Rightarrow> cstring list \<Rightarrow> (cstring \<times> decimal) list \<Rightarrow> (cstring \<times> decimal) list"
where
  "NextWeights config symbols ranked =
     (let longSelection = LongSelection config ranked;
          shortSelection = ShortSelection config ranked;
          zeroWeights = map (\<lambda>symbol. (symbol, 0)) symbols;
          withLongs =
            foldl (\<lambda>w symbol. AList.update symbol (1 / of_nat (length longSelection)) w)
              zeroWeights longSelection
      in foldl (\<lambda>w symbol. AList.update symbol (- 1 / of_nat (length shortSelection)) w)
           withLongs shortSelection)"

definition Side :: "decimal \<Rightarrow> decimal \<Rightarrow> cstring" where
  "Side delta nextWeight =
     (if 0 < delta then (if 0 \<le> nextWeight then utf16 ''BUY'' else utf16 ''COVER'')
      else (if nextWeight < 0 then utf16 ''SHORT'' else utf16 ''SELL''))"

fun TransactionsLoop ::
  "CloseMap \<Rightarrow> (cstring \<times> decimal) list \<Rightarrow> (cstring \<times> decimal) list \<Rightarrow> cstring \<Rightarrow> DateOnly \<Rightarrow>
   decimal \<Rightarrow> cstring list \<Rightarrow> decimal \<times> TransactionPoint list \<Rightarrow>
   exn + decimal \<times> TransactionPoint list"
where
  "TransactionsLoop closeMap pos nextWeights dateText date currentNav [] acc = Inr acc"
| "TransactionsLoop closeMap pos nextWeights dateText date currentNav (symbol # rest) acc =
     bindE (Lookup pos symbol) (\<lambda>previousWeight.
     bindE (Lookup nextWeights symbol) (\<lambda>nextWeight.
       let delta = nextWeight - previousWeight in
       if delta = 0
       then TransactionsLoop closeMap pos nextWeights dateText date currentNav rest acc
       else
         bindE (ClosePrice closeMap symbol date) (\<lambda>close.
           let notional = \<bar>delta\<bar> * currentNav;
               shares = (if close = 0 then 0 else notional / close)
           in TransactionsLoop closeMap pos nextWeights dateText date currentNav rest
                (fst acc + \<bar>delta\<bar>,
                 snd acc @
                   [TransactionPoint dateText symbol (Side delta nextWeight)
                      (decimal_Round shares 4) close (decimal_Round notional 2)]))))"

text \<open>The ranking used at a rebalance: the custom scores of the date when there are
  some, the built-in trailing return otherwise.\<close>

definition RankedFor :: "'s Locals \<Rightarrow> int32 \<Rightarrow> DateOnly \<Rightarrow> exn + (cstring \<times> decimal) list" where
  "RankedFor l i date =
     bindE (Item (commonDates_of l) (i - LookbackDays (config_of l))) (\<lambda>lookbackDate.
     bindE (DefaultRanked (closeMap_of l) (symbols_of l) lookbackDate date) (\<lambda>defaultRanked.
       Inr (Ranked (pythonSignals_of l) (DateToString (env_of l) date) (symbols_of l)
              defaultRanked)))"

definition Rebalance :: "'s Locals \<Rightarrow> int32 \<Rightarrow> DateOnly \<Rightarrow> 's SimState \<Rightarrow> exn + 's SimState" where
  "Rebalance l i date st =
     bindE (RankedFor l i date) (\<lambda>ranked.
       let dateKey = DateToString (env_of l) date;
           nextWeights = NextWeights (config_of l) (symbols_of l) ranked
       in bindE
            (TransactionsLoop (closeMap_of l) (positions st) nextWeights dateKey date (nav st)
               (symbols_of l) (totalTurnover st, txs st))
            (\<lambda>acc. Inr (st\<lparr>totalTurnover := fst acc, txs := snd acc, positions := nextWeights\<rparr>)))"

subsection \<open>The loop and the result\<close>

definition Canceled :: exn where
  "Canceled = Exn OperationCanceledException (utf16 ''The operation was canceled.'')"

text \<open>
  The body of the loop in three parts: the day's return, NAV, benchmark and drawdown
  (\<open>Advance\<close>, with the three points of the day), the rebalance, and the progress event
  (\<open>Publish\<close>).
\<close>

definition Advance ::
  "'s Locals \<Rightarrow> DateOnly \<Rightarrow> DateOnly \<Rightarrow> decimal \<Rightarrow> 's SimState \<Rightarrow>
   's SimState \<times> EquityPoint \<times> DrawdownPoint \<times> DailyReturnPoint"
where
  "Advance l date prevDate dailyReturn st =
     (let dateText = DateToString (env_of l) date;
          newNav = nav st * (1 + dailyReturn);
          dailyReturnPoint = DailyReturnPoint dateText dailyReturn;
          benchmarkNav =
            BenchmarkNav (InitialCapital (config_of l)) (benchmarkStart_of l)
              (benchmarkMap_of l) date;
          benchmarkDailyReturn = BenchmarkDailyReturn (benchmarkMap_of l) prevDate date;
          equityPoint = EquityPoint dateText newNav benchmarkNav;
          newPeak = max (peakNav st) newNav;
          drawdown = (if newPeak = 0 then 0 else newNav / newPeak - 1);
          drawdownPoint = DrawdownPoint dateText drawdown
      in (st\<lparr>nav := newNav,
              navSeries := navSeries st @ [newNav],
              dailyReturns := dailyReturns st @ [dailyReturnPoint],
              benchmarkDailyReturns := benchmarkDailyReturns st @ [benchmarkDailyReturn],
              equityCurve := equityCurve st @ [equityPoint],
              peakNav := newPeak,
              drawdownSeries := drawdownSeries st @ [drawdownPoint]\<rparr>,
          equityPoint, drawdownPoint, dailyReturnPoint))"

definition Publish ::
  "'s Locals \<Rightarrow> int32 \<Rightarrow> DateOnly \<Rightarrow> EquityPoint \<times> DrawdownPoint \<times> DailyReturnPoint \<Rightarrow>
   's SimState \<Rightarrow> exn + 's SimState"
where
  "Publish l i date points st =
     bindE (ComputeMetrics (Runtime (env_of l)) (navSeries st)
              (map DailyReturn (dailyReturns st)) (totalTurnover st)) (\<lambda>toDateMetrics.
     bindE (ComputeLiveStatsSnapshot (env_of l) date (StartDate (config_of l)) (nav st)
              (InitialCapital (config_of l)) toDateMetrics
              (map DailyReturn (dailyReturns st)) (benchmarkDailyReturns st)
              (positions st)) (\<lambda>liveStats.
       let pct =
             decimal_Round
               (of_int (sint (i + 1)) / of_nat (length (commonDates_of l)) * 100) 2
       in Inr (st\<lparr>progress :=
                    progress st @
                      [ProgressEvent pct (DateToString (env_of l) date) (fst points)
                         (fst (snd points)) (snd (snd points)) toDateMetrics liveStats]\<rparr>)))"

definition Step :: "'s Locals \<Rightarrow> int32 \<Rightarrow> 's SimState \<Rightarrow> exn + 's SimState" where
  "Step l i st =
     (if IsCancellationRequested (env_of l) i then Inl Canceled
      else
        bindE (Item (commonDates_of l) i) (\<lambda>date.
        bindE (Item (commonDates_of l) (i - 1)) (\<lambda>prevDate.
        bindE (DailyReturnLoop (closeMap_of l) (positions st) prevDate date (symbols_of l) 0)
          (\<lambda>dailyReturn.
          let advanced = Advance l date prevDate dailyReturn st in
          bindE (IsRebalance (config_of l) i) (\<lambda>isRebalance.
          bindE (if isRebalance then Rebalance l i date (fst advanced) else Inr (fst advanced))
            (\<lambda>rebalanced. Publish l i date (snd advanced) rebalanced))))))"

text \<open>
  The \<open>for\<close> loop runs \<open>i\<close> from \<open>LookbackDays + 1\<close> while \<open>i < commonDates.Count\<close>. A list
  holds fewer than \<open>2^31\<close> elements, so \<open>i++\<close> does not wrap.
\<close>

definition LoopIndices :: "BacktestConfig \<Rightarrow> nat \<Rightarrow> int32 list" where
  "LoopIndices config count = map word_of_int [sint (LookbackDays config + 1) .. int count - 1]"

fun Loop :: "'s Locals \<Rightarrow> int32 list \<Rightarrow> 's SimState \<Rightarrow> exn + 's SimState" where
  "Loop l [] st = Inr st"
| "Loop l (i # rest) st = bindE (Step l i st) (\<lambda>st'. Loop l rest st')"

definition LastDate :: "DateOnly list \<Rightarrow> exn + DateOnly" where
  "LastDate ds =
     (if ds = [] then Inl (Exn InvalidOperationException (utf16 ''Sequence contains no elements''))
      else Inr (last ds))"

definition TopHoldingsOf :: "(cstring \<times> decimal) list \<Rightarrow> BacktestMetrics \<Rightarrow> HoldingPoint list" where
  "TopHoldingsOf pos finalMetrics =
     take 10
       (map (\<lambda>x. HoldingPoint (fst x) (snd x) (snd x * Cagr finalMetrics))
          (OrderByDescending (\<lambda>x. \<bar>snd x\<bar>) (filter (\<lambda>x. snd x \<noteq> 0) pos)))"

definition Finish ::
  "'s Locals \<Rightarrow> cstring \<Rightarrow> PythonExecutionSummary \<Rightarrow> 's SimState \<Rightarrow> exn + 's BacktestResult"
where
  "Finish l runId pythonExecution st =
     bindE (ComputeMetrics (Runtime (env_of l)) (navSeries st)
              (map DailyReturn (dailyReturns st)) (totalTurnover st)) (\<lambda>finalMetrics.
     bindE (LastDate (commonDates_of l)) (\<lambda>lastDate.
     bindE (ComputeLiveStatsSnapshot (env_of l) lastDate (StartDate (config_of l)) (nav st)
              (InitialCapital (config_of l)) finalMetrics
              (map DailyReturn (dailyReturns st)) (benchmarkDailyReturns st) (positions st))
       (\<lambda>finalStats.
         Inr \<lparr>RunId = runId, Config = config_of l, PythonExecution = pythonExecution,
              Metrics = finalMetrics, AdditionalStats = finalStats,
              EquityCurve = equityCurve st, DrawdownSeries = drawdownSeries st,
              DailyReturns = dailyReturns st,
              TopHoldings = TopHoldingsOf (positions st) finalMetrics,
              Transactions = txs st\<rparr>)))"

text \<open>The run after the setup: scoring, fallback, simulation.\<close>

definition Simulate ::
  "'s engine_env \<Rightarrow> cstring \<Rightarrow> BacktestConfig \<Rightarrow> Prepared \<Rightarrow> CloseMap \<Rightarrow> PythonSignalsResult \<Rightarrow>
   exn + 's BacktestResult"
where
  "Simulate env runId config p closeMap scoring =
     bindE (ToDictionary (map (\<lambda>x. (Date x, Close x)) (prep_benchmarkBars p))) (\<lambda>benchmarkMap.
     bindE (BenchmarkStart benchmarkMap (prep_commonDates p)) (\<lambda>benchmarkStart.
       let l = \<lparr>env_of = env, config_of = config, symbols_of = prep_symbols p,
                commonDates_of = prep_commonDates p, closeMap_of = closeMap,
                pythonSignals_of = snd scoring, benchmarkMap_of = benchmarkMap,
                benchmarkStart_of = benchmarkStart\<rparr>
       in bindE (Loop l (LoopIndices config (length (prep_commonDates p)))
                   (InitialState config (prep_symbols p)))
            (\<lambda>st. Finish l runId (fst scoring) st)))"

definition RunAsync :: "'s engine_env \<Rightarrow> cstring \<Rightarrow> BacktestConfig \<Rightarrow> exn + 's BacktestResult" where
  "RunAsync env runId config =
     bindE (Setup env config) (\<lambda>p.
     bindE (BuildCloseMap (prep_barsBySymbol p)) (\<lambda>closeMap.
     bindE (pythonStrategyService env config (prep_commonDates p) (prep_barsBySymbol p))
       (\<lambda>pythonResult.
     bindE (ApplyFallback (Runtime env) config pythonResult) (\<lambda>scoring.
       Simulate env runId config p closeMap scoring))))"

section \<open>Example inputs\<close>

text \<open>
  A small run: three symbols over four trading days, a benchmark that misses the third
  day, and a strategy service whose outcome is a failed execution.
\<close>

definition ex_bars :: "decimal list \<Rightarrow> PriceBar list" where
  "ex_bars cs = map (\<lambda>dc. PriceBar (fst dc) (snd dc) (snd dc) (snd dc) (snd dc) 1000)
                  (zip [1 ..< Suc (length cs)] cs)"

text \<open>
  The base class library of the examples: the white-space table of \<open>char.IsWhiteSpace\<close>,
  the case table on U+0000..U+00FF (every other code unit is left as it is), ordinal
  comparisons. The examples built on it do not read the metrics: its floating-point
  routines return fixed values.
\<close>

definition ex_IsWhiteSpace :: "char16 \<Rightarrow> bool" where
  "ex_IsWhiteSpace c =
     (let n = uint c
      in (9 \<le> n \<and> n \<le> 13) \<or> n = 32 \<or> n = 133 \<or> n = 160 \<or> n = 5760
         \<or> (8192 \<le> n \<and> n \<le> 8202) \<or> n = 8232 \<or> n = 8233 \<or> n = 8239 \<or> n = 8287
         \<or> n = 12288)"

definition ex_ToUpperChar :: "char16 \<Rightarrow> char16" where
  "ex_ToUpperChar c =
     (let n = uint c
      in if 97 \<le> n \<and> n \<le> 122 then c - 32
         else if 224 \<le> n \<and> n \<le> 254 \<and> n \<noteq> 247 then c - 32
         else if n = 181 then 924
         else if n = 255 then 376
         else c)"

definition ex_runtime :: runtime where
  "ex_runtime =
     \<lparr>IsWhiteSpace = ex_IsWhiteSpace,
      ToUpperInvariant = map ex_ToUpperChar,
      StartsWith = (\<lambda>s prefix. take (length prefix) s = prefix),
      EndsWith = (\<lambda>s suffix. length suffix \<le> length s
                               \<and> drop (length s - length suffix) s = suffix),
      PowDecimal = (\<lambda>x y. Inr 1),
      SqrtDecimal = (\<lambda>x. Inr 0)\<rparr>"

definition ex_failed :: PythonSignalsResult where
  "ex_failed =
     (Summary True True False False (utf16 ''Python strategy exited with non-zero status.'') 0
        (Some (utf16 ''boom'')) (Some (utf16 ''runtime'')), None)"

definition ex_env :: "unit engine_env" where
  "ex_env =
     \<lparr>Runtime = ex_runtime,
      GetBarsAsync = (\<lambda>symbol startDate endDate.
        if symbol = utf16 ''A'' then Inr (ex_bars [10, 11, 12, 13])
        else if symbol = utf16 ''B'' then Inr (ex_bars [10, 10, 10, 10])
        else if symbol = utf16 ''C'' then Inr (ex_bars [10, 9, 8, 7])
        else if symbol = utf16 ''SPY''
          then Inr [PriceBar 1 5 5 5 5 1, PriceBar 2 6 6 6 6 1, PriceBar 4 7 7 7 7 1]
        else Inr []),
      pythonStrategyService = (\<lambda>config dates barsBySymbol. Inr ex_failed),
      IsCancellationRequested = (\<lambda>i. False),
      ComputeLiveStatsSnapshot = (\<lambda>d s n c m r b p. Inr ()),
      DateToString = (\<lambda>d. replicate d 0x64)\<rparr>"

definition ex_config :: BacktestConfig where
  "ex_config =
     \<lparr>Symbols = [utf16 '' a'', utf16 ''b'', utf16 ''A '', utf16 ''c'', utf16 ''  ''], StartDate = 1, EndDate = 4,
      InitialCapital = 1000, LookbackDays = 0, RebalanceFrequencyDays = 1,
      LongCount = 1, ShortCount = 1, StrategyCode = Some (utf16 ''x''), StrategyParams = None,
      FallbackToBuiltinOnPythonError = True\<rparr>"

text \<open>
  The trading dates of a symbol: the dates of the bars the market data service returns
  for it over the configured range.
\<close>

definition TradingDates :: "'s engine_env \<Rightarrow> BacktestConfig \<Rightarrow> cstring \<Rightarrow> DateOnly set" where
  "TradingDates env config symbol =
     (case GetBarsAsync env symbol (StartDate config) (EndDate config) of
        Inl e \<Rightarrow> {}
      | Inr bars \<Rightarrow> Date ` set bars)"

text \<open>The date of a daily-return point; the symbol and the weight of a holding.\<close>

definition ReturnDate :: "DailyReturnPoint \<Rightarrow> cstring" where
  "ReturnDate pt = (case pt of DailyReturnPoint d v \<Rightarrow> d)"

definition HoldingWeight :: "HoldingPoint \<Rightarrow> cstring \<times> decimal" where
  "HoldingWeight h = (case h of HoldingPoint symbol weight contribution \<Rightarrow> (symbol, weight))"

definition ex_barsBySymbol :: "(cstring \<times> PriceBar list) list" where
  "ex_barsBySymbol =
     [(utf16 ''A'', ex_bars [10, 11, 12, 13]), (utf16 ''B'', ex_bars [10, 10, 10, 10]),
      (utf16 ''C'', ex_bars [10, 9, 8, 7])]"

definition ex_prepared :: Prepared where
  "ex_prepared =
     \<lparr>prep_symbols = [utf16 ''A'', utf16 ''B'', utf16 ''C''], prep_barsBySymbol = ex_barsBySymbol,
      prep_benchmarkBars = [PriceBar 1 5 5 5 5 1, PriceBar 2 6 6 6 6 1, PriceBar 4 7 7 7 7 1],
      prep_commonDates = [1, 2, 3, 4]\<rparr>"

text \<open>
  The end-to-end scenario of the specification: five symbols, a look-back of 5 days, a
  rebalance every 5 days, two longs and one short, no scoring code.
\<close>

definition ex_scenario :: BacktestConfig where
  "ex_scenario =
     \<lparr>Symbols = [utf16 ''A'', utf16 ''B'', utf16 ''C'', utf16 ''D'', utf16 ''E''], StartDate = 1, EndDate = 40,
      InitialCapital = 1000000, LookbackDays = 5, RebalanceFrequencyDays = 5,
      LongCount = 2, ShortCount = 1, StrategyCode = None, StrategyParams = None,
      FallbackToBuiltinOnPythonError = False\<rparr>"

text \<open>The example run with a look-back of 2 days: its calendar has exactly 2 + 2 dates.\<close>

definition ex_short :: BacktestConfig where
  "ex_short = ex_config\<lparr>LookbackDays := 2\<rparr>"

text \<open>
  Four raw entries that spell two symbols; one symbol three times; four raw entries, the
  first of which is the second followed by a no-break space (U+00A0), with two longs and
  two shorts.
\<close>

definition ex_duplicates :: BacktestConfig where
  "ex_duplicates =
     ex_config\<lparr>Symbols := [utf16 ''aapl'', utf16 ''AAPL '', utf16 '' Aapl'', utf16 ''msft'']\<rparr>"

definition ex_repeated :: BacktestConfig where
  "ex_repeated = ex_config\<lparr>Symbols := [utf16 ''aapl'', utf16 ''aapl'', utf16 ''aapl'']\<rparr>"

definition ex_padded :: BacktestConfig where
  "ex_padded =
     ex_config\<lparr>Symbols := [utf16 ''A'' @ [0xA0], utf16 ''A'', utf16 ''B'', utf16 ''C''],
                LongCount := 2, ShortCount := 2\<rparr>"

text \<open>
  A sandbox environment in which every call succeeds and the timeout comes first; a
  parameter value nested \<open>n\<close> levels deep.
\<close>

fun ex_nest :: "nat \<Rightarrow> JsonElement" where
  "ex_nest 0 = Scalar"
| "ex_nest (Suc n) = Object [(utf16 ''a'', ex_nest n)]"

definition ex_sandbox :: sandbox_env where
  "ex_sandbox =
     \<lparr>SandboxRuntime = ex_runtime,
      CreateDirectory = None, WriteAllText = (\<lambda>file. None), ProcessStart = None,
      WhenAny = TimeoutTask, ProcessKill = None, AwaitWaitTask = None,
      AwaitStdoutTask = Inr (utf16 ''{}''), AwaitStderrTask = Inr [], ExitCode = 0,
      Deserialize = (\<lambda>json. Inr (Some [])), DirectoryDelete = None\<rparr>"

definition ex_dates :: "DateOnly list" where
  "ex_dates = [1, 2, 3, 4]"

definition ex_denied :: exn where
  "ex_denied = Exn ExternalException (utf16 ''Access to the path is denied.'')"

definition ex_deep :: BacktestConfig where
  "ex_deep = ex_config\<lparr>StrategyParams := Some [(utf16 ''p'', ex_nest 9)]\<rparr>"

text \<open>The outcomes of the sandbox that the claims name.\<close>

definition NotRequested :: PythonSignalsResult where
  "NotRequested = (Summary False False True False
                (utf16 ''No custom strategyCode provided. Using built-in momentum ranking.'') 0
                None None, None)"

definition ValidationFailure :: "cstring \<Rightarrow> PythonSignalsResult" where
  "ValidationFailure msg = (Summary True False False False msg 0 None (Some (utf16 ''validation'')), None)"

definition TimedOut :: PythonSignalsResult where
  "TimedOut = (Summary True True False False (utf16 ''Python strategy timed out after 15 seconds.'') 0
                   None (Some (utf16 ''timeout'')), None)"

definition UnexpectedFailure :: "exn \<Rightarrow> PythonSignalsResult" where
  "UnexpectedFailure ex =
     (Summary True False False False (utf16 ''Python strategy execution failed unexpectedly.'') 0
        (Some (Truncate (ExnMessage ex) 3000)) (Some (utf16 ''exception'')), None)"

text \<open>The scoring code passes the checks made before the temporary directory is created.\<close>

definition PassesValidation :: "sandbox_env \<Rightarrow> BacktestConfig \<Rightarrow> bool" where
  "PassesValidation env config \<longleftrightarrow>
     (case StrategyCode config of
        None \<Rightarrow> False
      | Some code \<Rightarrow>
          \<not> IsNullOrWhiteSpace (SandboxRuntime env) (Some code) \<and> length code \<le> 200000)
     \<and> ValidateParams (StrategyParams config) = None"

text \<open>The calls made up to and including the start of the subprocess.\<close>

definition PreparedLog :: "effect list" where
  "PreparedLog = [EffCreateDirectory, EffWriteAllText ''strategy.py'',
      EffWriteAllText ''strategy_params.json'', EffWriteAllText ''strategy_input.json'',
      EffWriteAllText ''runner.py'', EffProcessStart]"

text \<open>
  The two properties of the weights after a rebalance: the selected legs have no symbol
  in common; the long weights are positive and sum to 1, the short weights are negative
  and sum to \<open>-1\<close>, every other symbol has weight 0.
\<close>

definition LegsDisjoint :: "BacktestConfig \<Rightarrow> (cstring \<times> decimal) list \<Rightarrow> bool" where
  "LegsDisjoint config ranked \<longleftrightarrow>
     set (LongSelection config ranked) \<inter> set (ShortSelection config ranked) = {}"

definition LegWeights ::
  "(cstring \<times> decimal) list \<Rightarrow> cstring list \<Rightarrow> cstring list \<Rightarrow> cstring list \<Rightarrow> bool"
where
  "LegWeights weights long short symbols \<longleftrightarrow>
     (\<forall>s\<in>set long. \<exists>w. map_of weights s = Some w \<and> 0 < w)
     \<and> (\<Sum>s\<leftarrow>long. the (map_of weights s)) = 1
     \<and> (\<forall>s\<in>set short. \<exists>w. map_of weights s = Some w \<and> w < 0)
     \<and> (\<Sum>s\<leftarrow>short. the (map_of weights s)) = - 1
     \<and> (\<forall>s\<in>set symbols - set long - set short. map_of weights s = Some 0)"

text \<open>
  The rebalance of the example run at calendar position 2 (day 3) with a look-back of one
  day, from the initial state; once with one long and one short, once with no long and
  three shorts.
\<close>

definition ex_closeMap :: CloseMap where
  "ex_closeMap = map (\<lambda>kvp. (fst kvp, map (\<lambda>x. (Date x, Close x)) (snd kvp))) ex_barsBySymbol"

definition ex_locals :: "BacktestConfig \<Rightarrow> unit Locals" where
  "ex_locals config =
     \<lparr>env_of = ex_env, config_of = config, symbols_of = [utf16 ''A'', utf16 ''B'', utf16 ''C''],
      commonDates_of = ex_dates, closeMap_of = ex_closeMap, pythonSignals_of = None,
      benchmarkMap_of = [(1, 5), (2, 6), (4, 7)], benchmarkStart_of = 5\<rparr>"

definition ex_initial :: "BacktestConfig \<Rightarrow> unit SimState" where
  "ex_initial config = InitialState config [utf16 ''A'', utf16 ''B'', utf16 ''C'']"

definition ex_after :: "BacktestConfig \<Rightarrow> unit SimState" where
  "ex_after config =
     (case Rebalance (ex_locals config) 2 3 (ex_initial config) of
        Inr st \<Rightarrow> st
      | Inl e \<Rightarrow> ex_initial config)"

definition ex_ranked :: "(cstring \<times> decimal) list" where
  "ex_ranked = [(utf16 ''A'', 1 / 11), (utf16 ''B'', 0), (utf16 ''C'', - 1 / 9)]"

definition ex_lookback :: BacktestConfig where
  "ex_lookback = ex_config\<lparr>LookbackDays := 1\<rparr>"

definition ex_overlap :: BacktestConfig where
  "ex_overlap = ex_config\<lparr>LookbackDays := 1, LongCount := 0, ShortCount := 3\<rparr>"

text \<open>
  Conditions under which nothing stops a run after the scoring: every symbol has a close
  on every calendar date, a weight table has every symbol, the run is not cancelled, no
  conversion from double precision to \<open>decimal\<close> overflows, and the look-back and the
  benchmark are usable.
\<close>

definition Covers :: "CloseMap \<Rightarrow> cstring list \<Rightarrow> DateOnly list \<Rightarrow> bool" where
  "Covers closeMap symbols dates \<longleftrightarrow>
     (\<forall>s\<in>set symbols. \<forall>d\<in>set dates. \<exists>v. ClosePrice closeMap s d = Inr v)"

definition HasAll :: "(cstring \<times> decimal) list \<Rightarrow> cstring list \<Rightarrow> bool" where
  "HasAll weights symbols \<longleftrightarrow> (\<forall>s\<in>set symbols. \<exists>w. Lookup weights s = Inr w)"

definition Undisturbed :: "'s engine_env \<Rightarrow> bool" where
  "Undisturbed env \<longleftrightarrow>
     (\<forall>i. \<not> IsCancellationRequested env i)
     \<and> (\<forall>x y. \<exists>v. PowDecimal (Runtime env) x y = Inr v)
     \<and> (\<forall>x. \<exists>v. SqrtDecimal (Runtime env) x = Inr v)
     \<and> (\<forall>d s n c m r b w. \<exists>x. ComputeLiveStatsSnapshot env d s n c m r b w = Inr x)"

text \<open>The execution summary after the fallback.\<close>

definition FallbackSummary :: "PythonExecutionSummary \<Rightarrow> PythonExecutionSummary" where
  "FallbackSummary pythonExecution =
     pythonExecution
       \<lparr>UsedFallback := True,
        Message := Message pythonExecution @ (utf16 '' Falling back to built-in momentum ranking.'')\<rparr>"

definition Favourable :: "'s engine_env \<Rightarrow> BacktestConfig \<Rightarrow> Prepared \<Rightarrow> bool" where
  "Favourable env config p \<longleftrightarrow>
     Undisturbed env
     \<and> 0 \<le> sint (LookbackDays config) \<and> sint (LookbackDays config) < 2147483646
     \<and> length (prep_commonDates p) < 2147483648
     \<and> distinct (map Date (prep_benchmarkBars p)) \<and> prep_benchmarkBars p \<noteq> []"

text \<open>The example run with the fallback switched off.\<close>

definition ex_strict :: BacktestConfig where
  "ex_strict = ex_config\<lparr>FallbackToBuiltinOnPythonError := False\<rparr>"






section \<open>Basic facts\<close>

lemma bindE_Inr [simp]: "bindE (Inr x) f = f x"
  by (simp add: bindE_def)

lemma bindE_Inl [simp]: "bindE (Inl e) f = Inl e"
  by (simp add: bindE_def)

lemma length_utf16 [simp]: "length (utf16 s) = length s"
  by (simp add: utf16_def)

lemma sint_Math_Max: "sint (Math_Max a b) = max (sint a) (sint b)"
  by (auto simp add: Math_Max_def word_sle_eq max_def)

lemma Math_Max_one_nonpos: "sint r \<le> 0 \<Longrightarrow> Math_Max 1 r = 1"
  by (simp add: Math_Max_def word_sle_eq)

lemma rem32_one: "rem32 a 1 = Inr 0"
  by (simp add: rem32_def signed_modulo_int_def)

lemma IsRebalance_returns: "\<exists>b. IsRebalance config i = Inr b"
proof -
  have "1 \<le> sint (Math_Max 1 (RebalanceFrequencyDays config))"
    by (simp add: sint_Math_Max)
  then have "Math_Max 1 (RebalanceFrequencyDays config) \<noteq> 0"
    and "Math_Max 1 (RebalanceFrequencyDays config) \<noteq> - 1"
    by auto
  then show ?thesis
    by (simp add: IsRebalance_def rem32_def)
qed

section \<open>The rebalance cadence\<close>

text \<open>
  C10. For every configuration with \<open>rebalanceFrequencyDays \<le> 0\<close> the divisor of the
  rebalance test is \<open>max(1, rebalanceFrequencyDays) = 1\<close>: the remainder is computed
  without a division by zero, and the test holds on every day of the loop.
\<close>

theorem nonpositive_cadence_rebalances_daily:
  assumes "sint (RebalanceFrequencyDays config) \<le> 0"
  shows "Math_Max 1 (RebalanceFrequencyDays config) = 1
       \<and> (\<forall>i. IsRebalance config i = Inr True)
       \<and> filter (\<lambda>i. IsRebalance config i = Inr True) (LoopIndices config count)
           = LoopIndices config count"
proof -
  have one: "Math_Max 1 (RebalanceFrequencyDays config) = 1"
    using assms by (rule Math_Max_one_nonpos)
  then have every: "IsRebalance config i = Inr True" for i
    by (simp add: IsRebalance_def rem32_one)
  from one every show ?thesis
    by simp
qed

theorem nonpositive_cadence_rebalances_daily_witness:
  "sint (RebalanceFrequencyDays (ex_config\<lparr>RebalanceFrequencyDays := - 3\<rparr>)) \<le> 0
   \<and> IsRebalance (ex_config\<lparr>RebalanceFrequencyDays := - 3\<rparr>) 2 = Inr True
   \<and> filter (\<lambda>i. IsRebalance (ex_config\<lparr>RebalanceFrequencyDays := - 3\<rparr>) i = Inr True)
        (LoopIndices (ex_config\<lparr>RebalanceFrequencyDays := - 3\<rparr>) 4)
      = LoopIndices (ex_config\<lparr>RebalanceFrequencyDays := - 3\<rparr>) 4"
proof -
  have h: "sint (RebalanceFrequencyDays (ex_config\<lparr>RebalanceFrequencyDays := - 3\<rparr>)) \<le> 0"
    by simp
  from nonpositive_cadence_rebalances_daily [OF h, of 4] h show ?thesis
    by blast
qed

section \<open>The aligned calendar\<close>

lemma set_Distinct [simp]: "set (Distinct xs) = set xs"
  by (induction xs rule: Distinct.induct) auto

lemma distinct_Distinct [simp]: "distinct (Distinct xs)"
  by (induction xs rule: Distinct.induct) auto

lemma length_Distinct_le: "length (Distinct xs) \<le> length xs"
proof (induction xs rule: Distinct.induct)
  case 1
  show ?case by simp
next
  case (2 x xs)
  have "length (filter (\<lambda>y. y \<noteq> x) xs) \<le> length xs" by simp
  with 2 have "length (Distinct (filter (\<lambda>y. y \<noteq> x) xs)) \<le> length xs"
    by (rule le_trans)
  then show ?case by simp
qed

lemma set_foldl_IntersectWith:
  "set (foldl IntersectWith s rest) = set s \<inter> (\<Inter>r\<in>set rest. set r)"
  by (induction rest arbitrary: s) (auto simp add: IntersectWith_def)

lemma distinct_foldl_IntersectWith:
  "distinct s \<Longrightarrow> distinct (foldl IntersectWith s rest)"
  by (induction rest arbitrary: s) (auto simp add: IntersectWith_def)

lemma set_IntersectDates:
  "cs \<noteq> [] \<Longrightarrow> set (IntersectDates cs) = (\<Inter>c\<in>set cs. set c)"
  by (cases cs) (auto simp add: IntersectDates_def ToHashSet_def set_foldl_IntersectWith)

lemma distinct_IntersectDates: "distinct (IntersectDates cs)"
  by (cases cs) (auto simp add: IntersectDates_def ToHashSet_def distinct_foldl_IntersectWith)

lemma sorted_IntersectDates: "sorted_wrt (<) (IntersectDates cs)"
proof -
  have "sorted (IntersectDates cs)"
    by (cases cs) (auto simp add: IntersectDates_def)
  with distinct_IntersectDates [of cs] show ?thesis
    by (simp add: strict_sorted_iff)
qed

lemma mapM_Inr:
  "mapM f xs = Inr ys \<Longrightarrow> list_all2 (\<lambda>x y. f x = Inr y) xs ys"
proof (induction xs arbitrary: ys)
  case Nil
  then show ?case by simp
next
  case (Cons x xs)
  then show ?case
    by (auto simp add: bindE_def split: sum.splits)
qed

lemma LoadBars_Inr:
  assumes "LoadBars env config symbols = Inr barsBySymbol"
  shows "list_all2
           (\<lambda>symbol kvp. \<exists>bars.
              GetBarsAsync env symbol (StartDate config) (EndDate config) = Inr bars
              \<and> kvp = (symbol, sort_key Date bars))
           symbols barsBySymbol"
proof -
  from assms have "list_all2
      (\<lambda>symbol kvp.
         bindE (GetBarsAsync env symbol (StartDate config) (EndDate config))
           (\<lambda>bars. Inr (symbol, sort_key Date bars)) = Inr kvp)
      symbols barsBySymbol"
    unfolding LoadBars_def by (rule mapM_Inr)
  then show ?thesis
    by (rule list_all2_mono) (auto simp add: bindE_def split: sum.splits)
qed

lemma LoadBars_dates:
  assumes "LoadBars env config symbols = Inr barsBySymbol"
  shows "map fst barsBySymbol = symbols
       \<and> map (\<lambda>x. set (map Date (snd x))) barsBySymbol = map (TradingDates env config) symbols"
  using LoadBars_Inr [OF assms]
  by (induction symbols barsBySymbol rule: list_all2_induct) (auto simp add: TradingDates_def)

lemma set_CommonDates:
  assumes "LoadBars env config symbols = Inr barsBySymbol" and "symbols \<noteq> []"
  shows "set (CommonDates barsBySymbol) = (\<Inter>symbol\<in>set symbols. TradingDates env config symbol)"
proof -
  from LoadBars_dates [OF assms(1)]
  have keys: "map fst barsBySymbol = symbols"
    and dates: "map (\<lambda>x. set (map Date (snd x))) barsBySymbol
                = map (TradingDates env config) symbols"
    by simp_all
  from keys assms(2) have ne: "map (\<lambda>x. map Date (snd x)) barsBySymbol \<noteq> []"
    by auto
  have "set (CommonDates barsBySymbol)
        = (\<Inter>c\<in>set (map (\<lambda>x. map Date (snd x)) barsBySymbol). set c)"
    unfolding CommonDates_def by (rule set_IntersectDates [OF ne])
  also have "\<dots> = \<Inter> (set (map (\<lambda>x. set (map Date (snd x))) barsBySymbol))"
    by (simp add: image_image)
  also have "\<dots> = \<Inter> (set (map (TradingDates env config) symbols))"
    by (simp only: dates)
  also have "\<dots> = (\<Inter>symbol\<in>set symbols. TradingDates env config symbol)"
    by simp
  finally show ?thesis .
qed

lemma Setup_Inr:
  assumes "Setup env config = Inr p"
  shows "prep_symbols p = NormalizedSymbols (Runtime env) config
       \<and> \<not> int (length (NormalizedSymbols (Runtime env) config)) < sint (RequiredSymbolCount config)
       \<and> LoadBars env config (NormalizedSymbols (Runtime env) config) = Inr (prep_barsBySymbol p)
       \<and> (\<exists>spyBars. GetBarsAsync env (utf16 ''SPY'') (StartDate config) (EndDate config) = Inr spyBars
             \<and> prep_benchmarkBars p = sort_key Date spyBars)
       \<and> prep_commonDates p = CommonDates (prep_barsBySymbol p)
       \<and> sint (LookbackDays config + 2) < int (length (prep_commonDates p))"
  using assms
  by (auto simp add: Setup_def Let_def bindE_def split: if_splits sum.splits)

lemma RequiredSymbolCount_ge: "3 \<le> sint (RequiredSymbolCount config)"
  by (simp add: RequiredSymbolCount_def sint_Math_Max)

lemma ex_Setup: "Setup ex_env ex_config = Inr ex_prepared"
  by code_simp

lemma ex_TradingDates_SPY: "TradingDates ex_env ex_config (utf16 ''SPY'') = {1, 2, 4}"
  by (simp add: TradingDates_def ex_env_def utf16_def)

text \<open>
  C1 (as amended). For every run that passes the setup, the aligned date calendar that
  drives the simulation loop equals the set-intersection of the trading dates of all
  configured (normalized) symbols, sorted strictly increasing with no duplicates. The
  benchmark series takes no part in the intersection.
\<close>

theorem calendar_is_intersection_over_symbols:
  assumes "Setup env config = Inr p"
  shows "set (prep_commonDates p)
           = (\<Inter>symbol\<in>set (prep_symbols p). TradingDates env config symbol)
       \<and> sorted_wrt (<) (prep_commonDates p)
       \<and> distinct (prep_commonDates p)
       \<and> prep_symbols p = NormalizedSymbols (Runtime env) config"
proof -
  note s = Setup_Inr [OF assms]
  from s RequiredSymbolCount_ge [of config] have "NormalizedSymbols (Runtime env) config \<noteq> []"
    by auto
  with s set_CommonDates [of env config "NormalizedSymbols (Runtime env) config" "prep_barsBySymbol p"]
  have "set (prep_commonDates p)
          = (\<Inter>symbol\<in>set (prep_symbols p). TradingDates env config symbol)"
    by simp
  moreover from s have "sorted_wrt (<) (prep_commonDates p)" "distinct (prep_commonDates p)"
    by (simp_all add: CommonDates_def sorted_IntersectDates distinct_IntersectDates)
  ultimately show ?thesis using s by simp
qed

theorem calendar_is_intersection_over_symbols_witness:
  "Setup ex_env ex_config = Inr ex_prepared
   \<and> set (prep_commonDates ex_prepared)
       = (\<Inter>symbol\<in>set (prep_symbols ex_prepared). TradingDates ex_env ex_config symbol)
   \<and> sorted_wrt (<) (prep_commonDates ex_prepared)"
  using calendar_is_intersection_over_symbols [OF ex_Setup] ex_Setup by blast

lemma ex_run_days:
  "map_sum id (\<lambda>r. map ReturnDate (DailyReturns r)) (RunAsync ex_env (utf16 ''run'') ex_config)
     = Inr [utf16 ''dd'', utf16 ''ddd'', utf16 ''dddd'']"
  by code_simp

text \<open>
  The claim as stated fails: in the example run the benchmark has no bar on day 3, day 3
  is in the calendar, and the loop simulates it (days are rendered as that many
  letters).
\<close>

theorem calendar_contains_date_missing_from_benchmark:
  "Setup ex_env ex_config = Inr ex_prepared
   \<and> 3 \<in> set (prep_commonDates ex_prepared)
   \<and> 3 \<notin> TradingDates ex_env ex_config (utf16 ''SPY'')
   \<and> set (prep_commonDates ex_prepared)
       \<noteq> (\<Inter>symbol\<in>set (prep_symbols ex_prepared). TradingDates ex_env ex_config symbol)
           \<inter> TradingDates ex_env ex_config (utf16 ''SPY'')
   \<and> map_sum id (\<lambda>r. map ReturnDate (DailyReturns r)) (RunAsync ex_env (utf16 ''run'') ex_config)
       = Inr [utf16 ''dd'', utf16 ''ddd'', utf16 ''dddd'']"
proof -
  have a: "3 \<in> set (prep_commonDates ex_prepared)"
    by (simp add: ex_prepared_def)
  have b: "3 \<notin> TradingDates ex_env ex_config (utf16 ''SPY'')"
    by (simp add: ex_TradingDates_SPY)
  from a b have "set (prep_commonDates ex_prepared)
       \<noteq> (\<Inter>symbol\<in>set (prep_symbols ex_prepared). TradingDates ex_env ex_config symbol)
           \<inter> TradingDates ex_env ex_config (utf16 ''SPY'')"
    by blast
  with ex_Setup a b ex_run_days show ?thesis
    by (intro conjI)
qed

section \<open>The coverage check\<close>

lemma Setup_coverage:
  assumes "\<not> int (length (NormalizedSymbols (Runtime env) config)) < sint (RequiredSymbolCount config)"
    and "LoadBars env config (NormalizedSymbols (Runtime env) config) = Inr barsBySymbol"
    and "GetBarsAsync env (utf16 ''SPY'') (StartDate config) (EndDate config) = Inr spyBars"
  shows "Setup env config =
     (if int (length (CommonDates barsBySymbol)) \<le> sint (LookbackDays config + 2)
      then Inl InsufficientCoverage
      else Inr \<lparr>prep_symbols = NormalizedSymbols (Runtime env) config, prep_barsBySymbol = barsBySymbol,
                prep_benchmarkBars = sort_key Date spyBars,
                prep_commonDates = CommonDates barsBySymbol\<rparr>)"
  using assms by (simp add: Setup_def Let_def)

lemma ex_short_facts:
  "\<not> int (length (NormalizedSymbols (Runtime ex_env) ex_short)) < sint (RequiredSymbolCount ex_short)"
  "LoadBars ex_env ex_short (NormalizedSymbols (Runtime ex_env) ex_short) = Inr ex_barsBySymbol"
  "GetBarsAsync ex_env (utf16 ''SPY'') (StartDate ex_short) (EndDate ex_short)
     = Inr [PriceBar 1 5 5 5 5 1, PriceBar 2 6 6 6 6 1, PriceBar 4 7 7 7 7 1]"
  "int (length (CommonDates ex_barsBySymbol)) = sint (LookbackDays ex_short) + 2"
  by code_simp+

text \<open>
  C2 (as amended). Once the symbol check has passed and the bars are fetched, the setup
  fails with the coverage error, before the scoring call and before any simulation step,
  exactly when the aligned calendar has at most \<open>lookbackDays + 2\<close> dates (the sum in
  32-bit arithmetic); a calendar of exactly \<open>lookbackDays + 2\<close> dates fails, and a longer
  one passes the setup with that calendar.
\<close>

theorem coverage_error_iff_at_most_lookback_plus_two:
  assumes "\<not> int (length (NormalizedSymbols (Runtime env) config)) < sint (RequiredSymbolCount config)"
    and "LoadBars env config (NormalizedSymbols (Runtime env) config) = Inr barsBySymbol"
    and "GetBarsAsync env (utf16 ''SPY'') (StartDate config) (EndDate config) = Inr spyBars"
  shows "(Setup env config = Inl InsufficientCoverage
            \<longleftrightarrow> int (length (CommonDates barsBySymbol)) \<le> sint (LookbackDays config + 2))
       \<and> (int (length (CommonDates barsBySymbol)) \<le> sint (LookbackDays config + 2)
            \<longrightarrow> RunAsync env runId config = Inl InsufficientCoverage)
       \<and> (sint (LookbackDays config + 2) < int (length (CommonDates barsBySymbol))
            \<longrightarrow> (\<exists>p. Setup env config = Inr p
                     \<and> prep_commonDates p = CommonDates barsBySymbol))"
  using Setup_coverage [OF assms] by (auto simp add: RunAsync_def)

theorem coverage_error_iff_at_most_lookback_plus_two_witness:
  "int (length (CommonDates ex_barsBySymbol)) \<le> sint (LookbackDays ex_short + 2)
   \<and> Setup ex_env ex_short = Inl InsufficientCoverage
   \<and> RunAsync ex_env (utf16 ''run'') ex_short = Inl InsufficientCoverage"
proof -
  have le: "int (length (CommonDates ex_barsBySymbol)) \<le> sint (LookbackDays ex_short + 2)"
    by code_simp
  from coverage_error_iff_at_most_lookback_plus_two
         [OF ex_short_facts(1) ex_short_facts(2) ex_short_facts(3), of "utf16 ''run''"] le
  show ?thesis by blast
qed

text \<open>
  The claim as stated fails: with a look-back of 2 days and a calendar of exactly 4
  dates the run does not proceed, it fails with the coverage error.
\<close>

theorem calendar_of_lookback_plus_two_dates_fails:
  "int (length (CommonDates ex_barsBySymbol)) = sint (LookbackDays ex_short) + 2
   \<and> LoadBars ex_env ex_short (NormalizedSymbols (Runtime ex_env) ex_short) = Inr ex_barsBySymbol
   \<and> RunAsync ex_env (utf16 ''run'') ex_short = Inl InsufficientCoverage"
proof -
  have "RunAsync ex_env (utf16 ''run'') ex_short = Inl InsufficientCoverage"
    by code_simp
  with ex_short_facts show ?thesis by blast
qed

section \<open>The rebalance boundaries of the end-to-end scenario\<close>

lemma ex_scenario_boundaries:
  "filter (\<lambda>i. IsRebalance ex_scenario i = Inr True) (LoopIndices ex_scenario 40)
     = [10, 15, 20, 25, 30, 35]"
  by code_simp

lemma ex_scenario_days:
  "length (LoopIndices ex_scenario 40) = 34 \<and> hd (LoopIndices ex_scenario 40) = 6"
  by code_simp

text \<open>
  C3 (as amended). With 40 aligned trading days, \<open>lookbackDays = 5\<close> and
  \<open>rebalanceFrequencyDays = 5\<close>, the loop simulates the 34 calendar positions 6..39 and
  the rebalance condition holds on exactly 6 of them: positions 10, 15, 20, 25, 30, 35.
\<close>

theorem scenario_has_six_rebalance_boundaries:
  assumes "LookbackDays config = 5" and "RebalanceFrequencyDays config = 5"
  shows "filter (\<lambda>i. IsRebalance config i = Inr True) (LoopIndices config 40)
           = [10, 15, 20, 25, 30, 35]
       \<and> length (filter (\<lambda>i. IsRebalance config i = Inr True) (LoopIndices config 40)) = 6
       \<and> length (LoopIndices config 40) = 34"
proof -
  have i: "LoopIndices config 40 = LoopIndices ex_scenario 40"
    by (simp add: LoopIndices_def assms ex_scenario_def)
  have r: "IsRebalance config = IsRebalance ex_scenario"
    by (rule ext) (simp add: IsRebalance_def assms ex_scenario_def)
  show ?thesis
    unfolding i r using ex_scenario_boundaries ex_scenario_days by simp
qed

theorem scenario_has_six_rebalance_boundaries_witness:
  "LookbackDays ex_scenario = 5 \<and> RebalanceFrequencyDays ex_scenario = 5
   \<and> length (filter (\<lambda>i. IsRebalance ex_scenario i = Inr True) (LoopIndices ex_scenario 40))
       = 6"
proof -
  have a: "LookbackDays ex_scenario = 5" and b: "RebalanceFrequencyDays ex_scenario = 5"
    by (simp_all add: ex_scenario_def)
  from scenario_has_six_rebalance_boundaries [OF a b] a b show ?thesis by blast
qed

text \<open>The claim as stated fails: the number of boundaries in the scenario is not 7.\<close>

theorem scenario_has_not_seven_rebalance_boundaries:
  "length (filter (\<lambda>i. IsRebalance ex_scenario i = Inr True) (LoopIndices ex_scenario 40))
     \<noteq> 7"
  using ex_scenario_boundaries by simp

section \<open>The symbol check\<close>

lemma set_NormalizedSymbols:
  "set (NormalizedSymbols rt config)
     = {y \<in> (\<lambda>x. ToUpperInvariant rt (Trim rt x)) ` set (Symbols config).
          \<not> IsNullOrWhiteSpace rt (Some y)}"
  by (auto simp add: NormalizedSymbols_def)

lemma length_NormalizedSymbols:
  "length (NormalizedSymbols rt config) \<le> length (Symbols config)"
proof -
  have "length (NormalizedSymbols rt config)
      \<le> length (filter (\<lambda>x. \<not> IsNullOrWhiteSpace rt (Some x))
          (map (\<lambda>x. ToUpperInvariant rt (Trim rt x)) (Symbols config)))"
    unfolding NormalizedSymbols_def by (rule length_Distinct_le)
  also have "\<dots> \<le> length (map (\<lambda>x. ToUpperInvariant rt (Trim rt x)) (Symbols config))"
    by (rule length_filter_le)
  finally show ?thesis by simp
qed

lemma list_all_dropWhile: "list_all P (dropWhile P xs) \<longleftrightarrow> list_all P xs"
  by (induction xs) auto

lemma IsNullOrWhiteSpace_Trim:
  "IsNullOrWhiteSpace rt (Some (Trim rt s)) \<longleftrightarrow> IsNullOrWhiteSpace rt (Some s)"
  unfolding IsNullOrWhiteSpace_def Trim_def option.case
  by (simp only: list_all_rev list_all_dropWhile)

lemma ex_duplicates_facts:
  "NormalizedSymbols (Runtime ex_env) ex_duplicates = [utf16 ''AAPL'', utf16 ''MSFT'']"
  "sint (RequiredSymbolCount ex_duplicates) = 3"
  "length (Symbols ex_duplicates) = 4"
  by code_simp+

lemma ex_padded_facts:
  "NormalizedSymbols (Runtime ex_env) ex_padded = [utf16 ''A'', utf16 ''B'', utf16 ''C'']"
  "sint (RequiredSymbolCount ex_padded) = 4"
  "length (Symbols ex_padded) = 4"
  by code_simp+

lemma ex_repeated_facts:
  "length (NormalizedSymbols rt ex_repeated) \<le> 1"
  "sint (RequiredSymbolCount ex_repeated) = 3"
  "length (Symbols ex_repeated) = 3"
  by (simp_all add: NormalizedSymbols_def ex_repeated_def ex_config_def RequiredSymbolCount_def
      Math_Max_def word_sle_eq)

lemma Setup_NotEnoughSymbols:
  "int (length (NormalizedSymbols (Runtime env) config)) < sint (RequiredSymbolCount config)
   \<Longrightarrow> Setup env config = Inl NotEnoughSymbols
       \<and> RunAsync env runId config = Inl NotEnoughSymbols"
  by (simp add: Setup_def RunAsync_def Let_def)

text \<open>
  C9. The symbol list that is counted is the normalized one: its entries are the trimmed
  and then upper-cased raw entries that are not blank after that, each once. The run fails with the symbol error, whatever the market
  data, when that list is shorter than \<open>max(3, longCount + shortCount)\<close> (the sum in
  32-bit arithmetic); a raw list at least that long can fail: a symbol repeated three
  times is counted once.
\<close>

theorem symbols_are_normalized_before_the_count_check:
  "distinct (NormalizedSymbols (Runtime env) config)
   \<and> set (NormalizedSymbols (Runtime env) config)
       = {y \<in> (\<lambda>x. ToUpperInvariant (Runtime env) (Trim (Runtime env) x)) ` set (Symbols config).
            \<not> IsNullOrWhiteSpace (Runtime env) (Some y)}
   \<and> length (NormalizedSymbols (Runtime env) config) \<le> length (Symbols config)
   \<and> RequiredSymbolCount config = Math_Max 3 (LongCount config + ShortCount config)
   \<and> (int (length (NormalizedSymbols (Runtime env) config)) < sint (RequiredSymbolCount config)
        \<longrightarrow> Setup env config = Inl NotEnoughSymbols
            \<and> RunAsync env runId config = Inl NotEnoughSymbols)
   \<and> sint (RequiredSymbolCount ex_repeated) \<le> int (length (Symbols ex_repeated))
   \<and> RunAsync env runId ex_repeated = Inl NotEnoughSymbols"
proof -
  have "int (length (NormalizedSymbols (Runtime env) ex_repeated))
          < sint (RequiredSymbolCount ex_repeated)"
    using ex_repeated_facts(1) [of "Runtime env"] by (simp add: ex_repeated_facts(2))
  then have "RunAsync env runId ex_repeated = Inl NotEnoughSymbols"
    using Setup_NotEnoughSymbols [of env ex_repeated runId] by simp
  moreover have "sint (RequiredSymbolCount ex_repeated) \<le> int (length (Symbols ex_repeated))"
    by (simp add: ex_repeated_facts)
  moreover have "distinct (NormalizedSymbols (Runtime env) config)"
    by (simp add: NormalizedSymbols_def)
  ultimately show ?thesis
    using set_NormalizedSymbols [of "Runtime env" config]
      length_NormalizedSymbols [of "Runtime env" config]
      Setup_NotEnoughSymbols [of env config runId]
    by (simp add: NormalizedSymbols_def RequiredSymbolCount_def)
qed

theorem symbols_are_normalized_before_the_count_check_witness:
  "int (length (NormalizedSymbols (Runtime ex_env) ex_duplicates))
     < sint (RequiredSymbolCount ex_duplicates)
   \<and> sint (RequiredSymbolCount ex_duplicates) \<le> int (length (Symbols ex_duplicates))
   \<and> NormalizedSymbols (Runtime ex_env) ex_duplicates = [utf16 ''AAPL'', utf16 ''MSFT'']
   \<and> Setup ex_env ex_duplicates = Inl NotEnoughSymbols
   \<and> RunAsync ex_env (utf16 ''run'') ex_duplicates = Inl NotEnoughSymbols
   \<and> int (length (NormalizedSymbols (Runtime ex_env) ex_padded))
       < sint (RequiredSymbolCount ex_padded)
   \<and> NormalizedSymbols (Runtime ex_env) ex_padded = [utf16 ''A'', utf16 ''B'', utf16 ''C'']
   \<and> RunAsync ex_env (utf16 ''run'') ex_padded = Inl NotEnoughSymbols"
proof -
  have lt: "int (length (NormalizedSymbols (Runtime ex_env) ex_duplicates))
            < sint (RequiredSymbolCount ex_duplicates)"
    by (simp add: ex_duplicates_facts)
  have le: "sint (RequiredSymbolCount ex_duplicates) \<le> int (length (Symbols ex_duplicates))"
    by (simp add: ex_duplicates_facts)
  have lt': "int (length (NormalizedSymbols (Runtime ex_env) ex_padded))
            < sint (RequiredSymbolCount ex_padded)"
    by (simp add: ex_padded_facts)
  from symbols_are_normalized_before_the_count_check [of ex_env ex_duplicates "utf16 ''run''"] lt
  have a: "Setup ex_env ex_duplicates = Inl NotEnoughSymbols"
    and b: "RunAsync ex_env (utf16 ''run'') ex_duplicates = Inl NotEnoughSymbols"
    by blast+
  from symbols_are_normalized_before_the_count_check [of ex_env ex_padded "utf16 ''run''"] lt'
  have c: "RunAsync ex_env (utf16 ''run'') ex_padded = Inl NotEnoughSymbols"
    by blast
  from lt le ex_duplicates_facts(1) a b lt' ex_padded_facts(1) c show ?thesis
    by (intro conjI)
qed

section \<open>The sandbox: exceptions, timeout, validation\<close>

lemmas io_defs = io_bind_def io_call_def io_return_def io_lift_def io_await_def io_ignore_def
  io_catch_def io_finally_def

lemma BuildSignals_validated:
  assumes "PassesValidation env config"
  shows "BuildSignalsByDateAsync env config dates barsBySymbol =
           io_bind (io_call EffCreateDirectory (CreateDirectory env)) (\<lambda>u.
               io_finally
                 (io_catch (TryBlock env config dates barsBySymbol) CatchBlock)
                 (io_ignore (io_call EffDirectoryDelete (DirectoryDelete env)))) []"
  using assms
  by (auto simp add: PassesValidation_def BuildSignalsByDateAsync_def IsNullOrWhiteSpace_def
      split: option.splits)

lemma BuildSignals_not_validated:
  assumes "\<not> PassesValidation env config"
  shows "snd (BuildSignalsByDateAsync env config dates barsBySymbol) = []"
  using assms
  by (auto simp add: PassesValidation_def BuildSignalsByDateAsync_def IsNullOrWhiteSpace_def
      split: option.splits)

text \<open>
  C6 (the failing input). The temporary directory is created before the \<open>try\<close> block:
  when \<open>Directory.CreateDirectory\<close> throws, for a configuration that has passed the
  validation, the exception leaves \<open>BuildSignalsByDateAsync\<close>; no outcome is returned
  and nothing is caught.
\<close>

theorem create_directory_failure_propagates:
  assumes "PassesValidation env config" and "CreateDirectory env = Some ex"
  shows "BuildSignalsByDateAsync env config dates barsBySymbol = (Inl ex, [EffCreateDirectory])"
  unfolding BuildSignals_validated [OF assms(1)]
  by (simp add: io_defs assms(2))

lemma CatchBlock_returns: "CatchBlock ex trace = (Inr (UnexpectedFailure ex), trace @ [EffLogWarning])"
  by (simp add: CatchBlock_def UnexpectedFailure_def io_defs)

lemma caught_inside_try:
  assumes "PassesValidation env config" and "CreateDirectory env = None"
  shows "\<exists>r. fst (BuildSignalsByDateAsync env config dates barsBySymbol) = Inr r"
proof -
  obtain r trace where t: "TryBlock env config dates barsBySymbol [EffCreateDirectory] = (r, trace)"
    by (cases "TryBlock env config dates barsBySymbol [EffCreateDirectory]")
  show ?thesis
    unfolding BuildSignals_validated [OF assms(1)]
    by (cases r) (simp_all add: io_defs assms(2) t CatchBlock_returns)
qed

lemma exception_inside_try:
  assumes "PassesValidation env config" and "CreateDirectory env = None"
     and "TryBlock env config dates barsBySymbol [EffCreateDirectory] = (Inl ex, trace)"
  shows "BuildSignalsByDateAsync env config dates barsBySymbol = (Inr (UnexpectedFailure ex), trace @ [EffLogWarning, EffDirectoryDelete])"
    unfolding BuildSignals_validated [OF assms(1)]
    by (simp add: io_defs assms CatchBlock_returns)

lemma TryBlock_started:
  assumes "EffProcessStart \<in> set (snd (TryBlock env config dates barsBySymbol [EffCreateDirectory]))"
     and "ProcessStart env = None"
  shows "TryBlock env config dates barsBySymbol [EffCreateDirectory] =
     (case WhenAny env of
          TimeoutTask \<Rightarrow>
            io_bind (io_ignore (io_call EffProcessKillTree (ProcessKill env))) (\<lambda>u.
              io_return TimedOut)
        | WaitTask \<Rightarrow> AfterExit env) PreparedLog"
  using assms
  by (cases "WhenAny env")
    (auto simp add: TryBlock_def io_defs TimedOut_def PreparedLog_def
      split: option.splits sum.splits)

lemma CatchBlock_log: "snd (CatchBlock ex trace) = trace @ [EffLogWarning]"
  by (simp add: CatchBlock_returns)

text \<open>
  C7. Whenever the subprocess has been started and the timeout task completes before the
  subprocess exits, the sandbox kills the process tree and returns the outcome
  \<open>executed: true, succeeded: false, errorKind: "timeout"\<close> with no signals; the temporary
  directory is deleted afterwards.
\<close>

theorem timeout_kills_and_reports_timeout:
  assumes "EffProcessStart \<in> set (snd (BuildSignalsByDateAsync env config dates barsBySymbol))"
     and "ProcessStart env = None"
     and "WhenAny env = TimeoutTask"
  shows "BuildSignalsByDateAsync env config dates barsBySymbol =
           (Inr TimedOut, PreparedLog @ [EffProcessKillTree, EffDirectoryDelete])"
proof -
  have v: "PassesValidation env config"
  proof (rule ccontr)
    assume "\<not> PassesValidation env config"
    from BuildSignals_not_validated [OF this, of dates barsBySymbol] assms(1)
    show False by simp
  qed
  note b = BuildSignals_validated [OF v, of dates barsBySymbol]
  have c: "CreateDirectory env = None"
    using assms(1) unfolding b by (cases "CreateDirectory env") (auto simp add: io_defs)
  obtain r trace where t: "TryBlock env config dates barsBySymbol [EffCreateDirectory] = (r, trace)"
    by (cases "TryBlock env config dates barsBySymbol [EffCreateDirectory]")
  have "EffProcessStart \<in> set trace"
    using assms(1) unfolding b
    by (cases r) (auto simp add: io_defs c t CatchBlock_returns)
  with t have "EffProcessStart \<in> set (snd (TryBlock env config dates barsBySymbol [EffCreateDirectory]))"
    by simp
  from TryBlock_started [OF this assms(2)]
  have "TryBlock env config dates barsBySymbol [EffCreateDirectory] = (Inr TimedOut, PreparedLog @ [EffProcessKillTree])"
    by (simp add: assms(3) io_defs)
  then show ?thesis
    unfolding b by (simp add: io_defs c)
qed

lemma ex_not_blank: "\<not> IsNullOrWhiteSpace ex_runtime (Some (utf16 ''x''))"
  by (simp add: IsNullOrWhiteSpace_def ex_runtime_def ex_IsWhiteSpace_def utf16_def)

lemma ex_PassesValidation:
  "SandboxRuntime env = ex_runtime \<Longrightarrow> PassesValidation env ex_config"
  by (simp add: PassesValidation_def ex_config_def ValidateParams_def ex_not_blank)

lemma ex_sandbox_runtime:
  "SandboxRuntime ex_sandbox = ex_runtime"
  "SandboxRuntime (ex_sandbox\<lparr>CreateDirectory := Some ex_denied\<rparr>) = ex_runtime"
  by (simp_all add: ex_sandbox_def)

lemma ex_payload: "isl (BuildInputPayload ex_config ex_dates ex_barsBySymbol) = False"
  by code_simp

lemma ex_TryBlock_log:
  "EffProcessStart \<in> set (snd (TryBlock ex_sandbox ex_config ex_dates ex_barsBySymbol [EffCreateDirectory]))"
proof -
  from ex_payload obtain p where "BuildInputPayload ex_config ex_dates ex_barsBySymbol = Inr p"
    by (cases "BuildInputPayload ex_config ex_dates ex_barsBySymbol") auto
  then show ?thesis
    by (simp add: TryBlock_def io_defs ex_sandbox_def)
qed

lemma ex_started:
  "EffProcessStart \<in> set (snd (BuildSignalsByDateAsync ex_sandbox ex_config ex_dates ex_barsBySymbol))"
proof -
  obtain r trace where t: "TryBlock ex_sandbox ex_config ex_dates ex_barsBySymbol [EffCreateDirectory] = (r, trace)"
    by (cases "TryBlock ex_sandbox ex_config ex_dates ex_barsBySymbol [EffCreateDirectory]")
  with ex_TryBlock_log have "EffProcessStart \<in> set trace" by simp
  moreover have "CreateDirectory ex_sandbox = None" "DirectoryDelete ex_sandbox = None"
    by (simp_all add: ex_sandbox_def)
  ultimately show ?thesis
    unfolding BuildSignals_validated [OF ex_PassesValidation [OF ex_sandbox_runtime(1)]]
    by (cases r) (simp_all add: io_defs t CatchBlock_returns)
qed

theorem timeout_kills_and_reports_timeout_witness:
  "EffProcessStart \<in> set (snd (BuildSignalsByDateAsync ex_sandbox ex_config ex_dates ex_barsBySymbol))
   \<and> ProcessStart ex_sandbox = None
   \<and> WhenAny ex_sandbox = TimeoutTask
   \<and> BuildSignalsByDateAsync ex_sandbox ex_config ex_dates ex_barsBySymbol =
           (Inr TimedOut, PreparedLog @ [EffProcessKillTree, EffDirectoryDelete])"
proof -
  have a: "ProcessStart ex_sandbox = None" and b: "WhenAny ex_sandbox = TimeoutTask"
    by (simp_all add: ex_sandbox_def)
  from timeout_kills_and_reports_timeout [OF ex_started a b] ex_started a b show ?thesis by blast
qed

theorem create_directory_failure_propagates_witness:
  "PassesValidation (ex_sandbox\<lparr>CreateDirectory := Some ex_denied\<rparr>) ex_config
   \<and> CreateDirectory (ex_sandbox\<lparr>CreateDirectory := Some ex_denied\<rparr>) = Some ex_denied
   \<and> BuildSignalsByDateAsync (ex_sandbox\<lparr>CreateDirectory := Some ex_denied\<rparr>) ex_config
        ex_dates ex_barsBySymbol = (Inl ex_denied, [EffCreateDirectory])"
proof -
  have a: "CreateDirectory (ex_sandbox\<lparr>CreateDirectory := Some ex_denied\<rparr>) = Some ex_denied"
    by simp
  note v = ex_PassesValidation [OF ex_sandbox_runtime(2)]
  from create_directory_failure_propagates [OF v a] v a show ?thesis by blast
qed

lemma Traverse_depth:
  "fst (Traverse maxDepth maxNodes element depth n) \<Longrightarrow> depth + nesting element \<le> maxDepth"
  "fst (TraverseProps maxDepth maxNodes props depth n) \<Longrightarrow> props = [] \<or> depth + nestingProps props \<le> Suc maxDepth"
  "fst (TraverseItems maxDepth maxNodes items depth n) \<Longrightarrow> items = [] \<or> depth + nestingItems items \<le> Suc maxDepth"
proof (induction maxDepth maxNodes element depth n and maxDepth maxNodes props depth n
    and maxDepth maxNodes items depth n rule: Traverse_TraverseProps_TraverseItems.induct)
  case (1 maxDepth maxNodes props depth nodesVisited)
  then show ?case by (cases props) (auto split: if_splits)
next
  case (2 maxDepth maxNodes items depth nodesVisited)
  then show ?case by (cases items) (auto split: if_splits)
next
  case (3 maxDepth maxNodes depth nodesVisited)
  then show ?case by (auto split: if_splits)
next
  case (4 maxDepth maxNodes depth nodesVisited)
  then show ?case by simp
next
  case (5 maxDepth maxNodes property rest depth nodesVisited)
  obtain b n' where t: "Traverse maxDepth maxNodes (snd property) depth nodesVisited = (b, n')"
    by (cases "Traverse maxDepth maxNodes (snd property) depth nodesVisited")
  with "5.prems" have b: "b" and r: "fst (TraverseProps maxDepth maxNodes rest depth n')"
    by (cases b; simp)+
  from b t "5.IH"(1) have h: "depth + nesting (snd property) \<le> maxDepth"
    by simp
  from b t r "5.IH"(2) have "rest = [] \<or> depth + nestingProps rest \<le> Suc maxDepth"
    by simp
  with h show ?case
    by auto
next
  case (6 maxDepth maxNodes depth nodesVisited)
  then show ?case by simp
next
  case (7 maxDepth maxNodes item rest depth nodesVisited)
  obtain b n' where t: "Traverse maxDepth maxNodes item depth nodesVisited = (b, n')"
    by (cases "Traverse maxDepth maxNodes item depth nodesVisited")
  with "7.prems" have b: "b" and r: "fst (TraverseItems maxDepth maxNodes rest depth n')"
    by (cases b; simp)+
  from b t "7.IH"(1) have h: "depth + nesting item \<le> maxDepth"
    by simp
  from b t r "7.IH"(2) have "rest = [] \<or> depth + nestingItems rest \<le> Suc maxDepth"
    by simp
  with h show ?case
    by auto
qed

lemma IsWithinDepthAndSize_nesting:
  "IsWithinDepthAndSize element maxDepth maxNodes \<Longrightarrow> nesting element \<le> maxDepth"
  using Traverse_depth(1) [of maxDepth maxNodes element 0 0]
  by (simp add: IsWithinDepthAndSize_def)

lemma ValidateParamsLoop_deep:
  "kvp \<in> set ps \<Longrightarrow> 9 \<le> nesting (snd kvp) \<Longrightarrow> \<exists>msg. ValidateParamsLoop ps = Some msg"
proof (induction ps)
  case Nil
  then show ?case by simp
next
  case (Cons a ps)
  show ?case
  proof (cases "kvp = a")
    case True
    with Cons.prems have "\<not> IsWithinDepthAndSize (snd a) 8 10000"
      using IsWithinDepthAndSize_nesting [of "snd a" 8 10000] by auto
    then show ?thesis by simp
  next
    case False
    with Cons show ?thesis by auto
  qed
qed

lemma ValidateParams_deep:
  "kvp \<in> set ps \<Longrightarrow> 9 \<le> nesting (snd kvp) \<Longrightarrow> \<exists>msg. ValidateParams (Some ps) = Some msg"
  using ValidateParamsLoop_deep [of kvp ps] by (simp add: ValidateParams_def)

lemma ValidationFailure_too_large_or_invalid:
  assumes "\<not> IsNullOrWhiteSpace (SandboxRuntime env) (StrategyCode config)"
    and "ValidateParams (StrategyParams config) = Some paramValidationError"
  shows "\<exists>msg. BuildSignalsByDateAsync env config dates barsBySymbol
                 = (Inr (ValidationFailure msg), [])"
  using assms by (auto simp add: BuildSignalsByDateAsync_def ValidationFailure_def)

text \<open>
  C8. For every scoring request (the scoring code is not blank) whose strategy parameters
  contain a value nested to depth 9 or more (the parameter's own value at depth 0, as
  \<open>Traverse\<close> counts), the sandbox returns the failure outcome with
  \<open>errorKind: "validation"\<close>, not executed and without signals, and it has created no
  directory, written no file and started no subprocess.
\<close>

theorem deep_params_rejected_before_any_effect:
  assumes "\<not> IsNullOrWhiteSpace (SandboxRuntime env) (StrategyCode config)"
    and "StrategyParams config = Some ps" and "kvp \<in> set ps" and "9 \<le> nesting (snd kvp)"
  shows "\<exists>msg. BuildSignalsByDateAsync env config dates barsBySymbol
                 = (Inr (ValidationFailure msg), [])
               \<and> ErrorType (fst (ValidationFailure msg)) = Some (utf16 ''validation'')
               \<and> Requested (fst (ValidationFailure msg))
               \<and> \<not> Executed (fst (ValidationFailure msg))
               \<and> \<not> Succeeded (fst (ValidationFailure msg))
               \<and> snd (ValidationFailure msg) = None"
proof -
  from ValidateParams_deep [OF assms(3,4)] assms(2)
  obtain e where "ValidateParams (StrategyParams config) = Some e" by auto
  from ValidationFailure_too_large_or_invalid [OF assms(1) this]
  obtain msg where "BuildSignalsByDateAsync env config dates barsBySymbol
                 = (Inr (ValidationFailure msg), [])"
    by blast
  then show ?thesis
    by (auto simp add: ValidationFailure_def Summary_def)
qed

lemma ex_nest_9: "nesting (ex_nest 9) = 9"
  by code_simp

lemma ex_nest_within:
  "IsWithinDepthAndSize (ex_nest 9) 8 10000 = False \<and> IsWithinDepthAndSize (ex_nest 8) 8 10000 = True"
proof -
  have "ex_nest 9 = Object [(utf16 ''a'', ex_nest 8)]"
    by (simp add: eval_nat_numeral)
  moreover have "ex_nest 8 = Object [(utf16 ''a'', Object [(utf16 ''a'', Object [(utf16 ''a'', Object [(utf16 ''a'',
      Object [(utf16 ''a'', Object [(utf16 ''a'', Object [(utf16 ''a'', Object [(utf16 ''a'', Scalar)])])])])])])])]"
    by (simp add: eval_nat_numeral)
  ultimately show ?thesis
    by (simp add: IsWithinDepthAndSize_def)
qed

theorem deep_params_rejected_before_any_effect_witness:
  "\<not> IsNullOrWhiteSpace (SandboxRuntime ex_sandbox) (StrategyCode ex_deep)
   \<and> StrategyParams ex_deep = Some [(utf16 ''p'', ex_nest 9)]
   \<and> 9 \<le> nesting (snd (utf16 ''p'', ex_nest 9))
   \<and> BuildSignalsByDateAsync ex_sandbox ex_deep ex_dates ex_barsBySymbol
       = (Inr (ValidationFailure
                 (utf16 ''Param '' @ quoted (utf16 ''p'')
                    @ utf16 '' exceeds supported JSON complexity.'')), [])"
proof -
  have d: "\<not> IsNullOrWhiteSpace (SandboxRuntime ex_sandbox) (StrategyCode ex_deep)"
    by (simp add: ex_deep_def ex_config_def ex_sandbox_runtime ex_not_blank)
  have a: "StrategyParams ex_deep = Some [(utf16 ''p'', ex_nest 9)]"
    by (simp add: ex_deep_def)
  have b: "(utf16 ''p'', ex_nest 9) \<in> set [(utf16 ''p'', ex_nest 9)]"
    by simp
  have c: "9 \<le> nesting (snd (utf16 ''p'', ex_nest 9))"
    by (simp add: ex_nest_9)
  from deep_params_rejected_before_any_effect [OF d a b c, of ex_dates ex_barsBySymbol]
  obtain msg where m: "BuildSignalsByDateAsync ex_sandbox ex_deep ex_dates ex_barsBySymbol
                 = (Inr (ValidationFailure msg), [])"
    by blast
  have v: "ValidateParams (StrategyParams ex_deep)
             = Some (utf16 ''Param '' @ quoted (utf16 ''p'')
                      @ utf16 '' exceeds supported JSON complexity.'')"
    using ex_nest_within by (simp add: a ValidateParams_def utf16_def)
  have "200000 < length (case StrategyCode ex_deep of None \<Rightarrow> [] | Some code \<Rightarrow> code) = False"
    by (simp add: ex_deep_def ex_config_def utf16_def)
  with d v have "BuildSignalsByDateAsync ex_sandbox ex_deep ex_dates ex_barsBySymbol
       = (Inr (ValidationFailure
                 (utf16 ''Param '' @ quoted (utf16 ''p'')
                    @ utf16 '' exceeds supported JSON complexity.'')), [])"
    by (simp add: BuildSignalsByDateAsync_def ValidationFailure_def)
  with m d a c show ?thesis
    by (intro conjI) simp_all
qed

text \<open>
  When no scoring code is supplied the parameters are not examined: the outcome is the
  one of a run without scoring, whatever the parameters.
\<close>

lemma no_code_not_requested:
  "IsNullOrWhiteSpace (SandboxRuntime env) (StrategyCode config)
   \<Longrightarrow> BuildSignalsByDateAsync env config dates barsBySymbol = (Inr NotRequested, [])"
  by (simp add: BuildSignalsByDateAsync_def NotRequested_def)

section \<open>The weights after a rebalance\<close>

lemma Distinct_distinct: "distinct xs \<Longrightarrow> Distinct xs = xs"
  by (induction xs rule: Distinct.induct) (auto simp add: filter_id_conv)

lemma map_of_foldl_update:
  "map_of (foldl (\<lambda>w s. AList.update s v w) w0 xs) k
     = (if k \<in> set xs then Some v else map_of w0 k)"
  by (induction xs arbitrary: w0) (auto simp add: update_conv')

lemma map_of_zero_weights:
  "map_of (map (\<lambda>symbol. (symbol, 0::decimal)) symbols) k = (if k \<in> set symbols then Some 0 else None)"
  by (induction symbols) auto

lemma map_of_NextWeights:
  "map_of (NextWeights config symbols ranked) k =
     (if k \<in> set (ShortSelection config ranked)
        then Some (- 1 / of_nat (length (ShortSelection config ranked)))
      else if k \<in> set (LongSelection config ranked)
        then Some (1 / of_nat (length (LongSelection config ranked)))
      else if k \<in> set symbols then Some 0 else None)"
  by (simp add: NextWeights_def Let_def map_of_foldl_update map_of_zero_weights)

lemma mapM_fst:
  assumes "mapM f xs = Inr ys" and "\<And>x y. f x = Inr y \<Longrightarrow> fst y = x"
  shows "map fst ys = xs"
  using mapM_Inr [OF assms(1)] assms(2)
  by (induction xs ys rule: list_all2_induct) auto

lemma keys_sort_key:
  "distinct (map fst (sort_key k xs)) = distinct (map fst xs)"
  "set (map fst (sort_key k xs)) = set (map fst xs)"
  "length (sort_key k xs) = length xs"
  by (simp_all add: distinct_map)

lemma DefaultRanked_keys:
  assumes "DefaultRanked closeMap symbols lookbackDate date = Inr ranked"
  shows "distinct (map fst ranked) = distinct symbols \<and> set (map fst ranked) = set symbols
       \<and> length ranked = length symbols"
proof -
  let ?f = "\<lambda>symbol.
          bindE (ClosePrice closeMap symbol lookbackDate) (\<lambda>startClose.
          bindE (ClosePrice closeMap symbol date) (\<lambda>endClose.
            Inr (symbol, if startClose = 0 then 0 else endClose / startClose - 1)))"
  from assms obtain scored where s: "mapM ?f symbols = Inr scored"
    and r: "ranked = OrderByDescending snd scored"
    by (auto simp add: DefaultRanked_def bindE_def split: sum.splits)
  have "map fst scored = symbols"
    by (rule mapM_fst [OF s]) (auto simp add: bindE_def split: sum.splits)
  moreover from this have "length scored = length symbols"
    by (metis length_map)
  ultimately show ?thesis
    unfolding r OrderByDescending_def by (simp only: keys_sort_key)
qed

lemma Ranked_keys:
  assumes "distinct (map fst defaultRanked) = distinct symbols"
    and "set (map fst defaultRanked) = set symbols"
    and "length defaultRanked = length symbols"
  shows "distinct (map fst (Ranked pythonSignals dateKey symbols defaultRanked)) = distinct symbols
       \<and> set (map fst (Ranked pythonSignals dateKey symbols defaultRanked)) = set symbols
       \<and> length (Ranked pythonSignals dateKey symbols defaultRanked) = length symbols"
proof -
  let ?g = "\<lambda>dateSignals symbol.
              case map_of dateSignals symbol of
                Some customScore \<Rightarrow> (symbol, customScore)
              | None \<Rightarrow> (symbol, decimal_MinValue / 2)"
  have g: "map fst (map (?g ds) symbols) = symbols" for ds :: "(cstring \<times> decimal) list"
    by (induction symbols) (auto split: option.splits)
  have "distinct (map fst (OrderByDescending snd (map (?g ds) symbols))) = distinct symbols
       \<and> set (map fst (OrderByDescending snd (map (?g ds) symbols))) = set symbols
       \<and> length (OrderByDescending snd (map (?g ds) symbols)) = length symbols" for ds
    unfolding OrderByDescending_def keys_sort_key g by simp
  with assms show ?thesis
    by (simp add: Ranked_def split: option.splits)
qed

lemma RankedFor_keys:
  assumes "RankedFor l i date = Inr ranked"
  shows "distinct (map fst ranked) = distinct (symbols_of l)
       \<and> set (map fst ranked) = set (symbols_of l)
       \<and> length ranked = length (symbols_of l)"
proof -
  from assms obtain lookbackDate defaultRanked where
    d: "DefaultRanked (closeMap_of l) (symbols_of l) lookbackDate date = Inr defaultRanked"
    and r: "ranked = Ranked (pythonSignals_of l) (DateToString (env_of l) date) (symbols_of l)
              defaultRanked"
    by (auto simp add: RankedFor_def bindE_def split: sum.splits)
  from DefaultRanked_keys [OF d] show ?thesis
    unfolding r by (intro Ranked_keys) simp_all
qed

lemma Rebalance_positions:
  assumes "Rebalance l i date st = Inr st'"
  shows "\<exists>ranked. RankedFor l i date = Inr ranked
             \<and> positions st' = NextWeights (config_of l) (symbols_of l) ranked"
  using assms
  by (auto simp add: Rebalance_def Let_def bindE_def split: sum.splits)

lemma selections_of_distinct:
  assumes "distinct (map fst ranked)"
  shows "LongSelection config ranked
           = take (nat (sint (Math_Max 1 (LongCount config)))) (map fst ranked)"
    and "ShortSelection config ranked
           = drop (length ranked - nat (sint (Math_Max 1 (ShortCount config)))) (map fst ranked)"
  using assms
  by (simp_all add: LongSelection_def ShortSelection_def ToHashSet_def TakeLast_def
      take_map drop_map Distinct_distinct distinct_map distinct_take distinct_drop
      inj_on_subset [OF _ set_take_subset] inj_on_subset [OF _ set_drop_subset])

lemma take_TakeLast_nonempty:
  assumes "xs \<noteq> []" and "0 < k"
  shows "take k xs \<noteq> []" and "TakeLast k xs \<noteq> []"
proof -
  from assms(1) have "0 < length xs" by simp
  with assms(2) have "length xs - k < length xs" by arith
  then show "TakeLast k xs \<noteq> []" by (simp add: TakeLast_def)
  from assms show "take k xs \<noteq> []" by simp
qed

lemma selections_nonempty:
  assumes "ranked \<noteq> []"
  shows "LongSelection config ranked \<noteq> []" and "ShortSelection config ranked \<noteq> []"
proof -
  have "1 \<le> sint (Math_Max 1 (LongCount config))" "1 \<le> sint (Math_Max 1 (ShortCount config))"
    by (simp_all add: sint_Math_Max)
  then have kl: "0 < nat (sint (Math_Max 1 (LongCount config)))"
    and ks: "0 < nat (sint (Math_Max 1 (ShortCount config)))"
    by simp_all
  have "take (nat (sint (Math_Max 1 (LongCount config)))) ranked \<noteq> []"
    and "TakeLast (nat (sint (Math_Max 1 (ShortCount config)))) ranked \<noteq> []"
    by (rule take_TakeLast_nonempty(1) [OF assms kl], rule take_TakeLast_nonempty(2) [OF assms ks])
  then have "set (LongSelection config ranked) \<noteq> {}"
    and "set (ShortSelection config ranked) \<noteq> {}"
    by (simp_all add: LongSelection_def ShortSelection_def ToHashSet_def)
  then show "LongSelection config ranked \<noteq> []" and "ShortSelection config ranked \<noteq> []"
    by auto
qed

lemma LegWeights_NextWeights:
  assumes "LegsDisjoint config ranked" and "ranked \<noteq> []"
  shows "LegWeights (NextWeights config symbols ranked) (LongSelection config ranked)
           (ShortSelection config ranked) symbols"
proof -
  let ?long = "LongSelection config ranked" and ?short = "ShortSelection config ranked"
  let ?w = "NextWeights config symbols ranked"
  from selections_nonempty [OF assms(2)] have ne: "?long \<noteq> []" "?short \<noteq> []"
    by simp_all
  then have len: "0 < length ?long" "0 < length ?short"
    by simp_all
  from assms(1) have disj: "s \<in> set ?long \<Longrightarrow> s \<notin> set ?short" for s
    by (auto simp add: LegsDisjoint_def)
  have long: "map_of ?w s = Some (1 / of_nat (length ?long))" if "s \<in> set ?long" for s
    using that disj [OF that] by (simp add: map_of_NextWeights)
  have short: "map_of ?w s = Some (- 1 / of_nat (length ?short))" if "s \<in> set ?short" for s
    using that by (simp add: map_of_NextWeights)
  have rest: "map_of ?w s = Some 0" if "s \<in> set symbols - set ?long - set ?short" for s
    using that by (simp add: map_of_NextWeights)
  have "(\<Sum>s\<leftarrow>?long. the (map_of ?w s)) = (\<Sum>s\<leftarrow>?long. 1 / of_nat (length ?long))"
    by (rule arg_cong [where f = sum_list], rule map_cong) (simp_all add: long)
  also have "\<dots> = 1"
    using len(1) by (simp add: sum_list_triv)
  finally have sumlong: "(\<Sum>s\<leftarrow>?long. the (map_of ?w s)) = 1" .
  have "(\<Sum>s\<leftarrow>?short. the (map_of ?w s)) = (\<Sum>s\<leftarrow>?short. - 1 / of_nat (length ?short))"
    by (rule arg_cong [where f = sum_list], rule map_cong) (simp_all add: short)
  also have "\<dots> = - 1"
    using len(2) by (simp add: sum_list_triv)
  finally have sumshort: "(\<Sum>s\<leftarrow>?short. the (map_of ?w s)) = - 1" .
  from len have pos: "(0::decimal) < 1 / of_nat (length ?long)"
    and neg: "- 1 / of_nat (length ?short) < (0::decimal)"
    by simp_all
  show ?thesis
    unfolding LegWeights_def
    using long short rest sumlong sumshort pos neg by blast
qed

lemma LegsDisjoint_counts:
  assumes "distinct (map fst ranked)"
    and "1 \<le> sint (LongCount config)" and "1 \<le> sint (ShortCount config)"
    and "sint (LongCount config) + sint (ShortCount config) \<le> int (length ranked)"
  shows "LegsDisjoint config ranked"
proof -
  have l: "sint (Math_Max 1 (LongCount config)) = sint (LongCount config)"
    and s: "sint (Math_Max 1 (ShortCount config)) = sint (ShortCount config)"
    using assms(2,3) by (simp_all add: sint_Math_Max)
  have "nat (sint (LongCount config)) \<le> length ranked - nat (sint (ShortCount config))"
    using assms(2,3,4) by linarith
  with assms(1) show ?thesis
    unfolding LegsDisjoint_def selections_of_distinct [OF assms(1)] l s
    by (intro set_take_disj_set_drop_if_distinct) simp_all
qed

text \<open>
  Immediately after a rebalance in which the selected long and short legs have no symbol
  in common, the weights of the long-leg symbols are strictly positive and sum to 1, the
  weights of the short-leg symbols are strictly negative and sum to \<open>-1\<close>, and every
  unselected symbol has weight exactly 0 (in exact arithmetic). The legs have no symbol
  in common whenever \<open>longCount \<ge> 1\<close>, \<open>shortCount \<ge> 1\<close> and \<open>longCount + shortCount\<close> is at
  most the number of symbols.
\<close>

lemma disjoint_legs_weights:
  assumes "Rebalance l i date st = Inr st'"
    and "distinct (symbols_of l)" and "symbols_of l \<noteq> []"
  shows "\<exists>ranked. RankedFor l i date = Inr ranked
           \<and> positions st' = NextWeights (config_of l) (symbols_of l) ranked
           \<and> (LegsDisjoint (config_of l) ranked
                \<longrightarrow> LegWeights (positions st') (LongSelection (config_of l) ranked)
                      (ShortSelection (config_of l) ranked) (symbols_of l))
           \<and> (1 \<le> sint (LongCount (config_of l)) \<and> 1 \<le> sint (ShortCount (config_of l))
              \<and> sint (LongCount (config_of l)) + sint (ShortCount (config_of l))
                  \<le> int (length (symbols_of l))
                \<longrightarrow> LegsDisjoint (config_of l) ranked)"
proof -
  from Rebalance_positions [OF assms(1)] obtain ranked where
    r: "RankedFor l i date = Inr ranked"
    and p: "positions st' = NextWeights (config_of l) (symbols_of l) ranked"
    by blast
  from RankedFor_keys [OF r] assms(2,3)
  have d: "distinct (map fst ranked)" and n: "length ranked = length (symbols_of l)"
    and ne: "ranked \<noteq> []"
    by auto
  have "LegsDisjoint (config_of l) ranked
          \<longrightarrow> LegWeights (positions st') (LongSelection (config_of l) ranked)
                (ShortSelection (config_of l) ranked) (symbols_of l)"
    unfolding p using LegWeights_NextWeights [OF _ ne] by blast
  moreover have "1 \<le> sint (LongCount (config_of l)) \<and> 1 \<le> sint (ShortCount (config_of l))
              \<and> sint (LongCount (config_of l)) + sint (ShortCount (config_of l))
                  \<le> int (length (symbols_of l))
                \<longrightarrow> LegsDisjoint (config_of l) ranked"
    using LegsDisjoint_counts [OF d, of "config_of l"] n by simp
  ultimately show ?thesis
    using r p by blast
qed

lemma ex_lookback_rebalance:
  "Rebalance (ex_locals ex_lookback) 2 3 (ex_initial ex_lookback) = Inr (ex_after ex_lookback)"
  "RankedFor (ex_locals ex_lookback) 2 3 = Inr ex_ranked"
  "LongSelection ex_lookback ex_ranked = [utf16 ''A'']"
  "ShortSelection ex_lookback ex_ranked = [utf16 ''C'']"
  "positions (ex_after ex_lookback) = [(utf16 ''A'', 1), (utf16 ''B'', 0), (utf16 ''C'', - 1)]"
  by code_simp+

lemma ex_overlap_rebalance:
  "Rebalance (ex_locals ex_overlap) 2 3 (ex_initial ex_overlap) = Inr (ex_after ex_overlap)"
  "RankedFor (ex_locals ex_overlap) 2 3 = Inr ex_ranked"
  "LongSelection ex_overlap ex_ranked = [utf16 ''A'']"
  "ShortSelection ex_overlap ex_ranked = [utf16 ''A'', utf16 ''B'', utf16 ''C'']"
  "positions (ex_after ex_overlap)
     = [(utf16 ''A'', - 1 / 3), (utf16 ''B'', - 1 / 3), (utf16 ''C'', - 1 / 3)]"
  by code_simp+

lemma ex_overlap_setup:
  "int (length (NormalizedSymbols (Runtime ex_env) ex_overlap)) = 3"
  "sint (RequiredSymbolCount ex_overlap) = 3"
  "sint (Math_Max 1 (LongCount ex_overlap)) = 1"
  "sint (Math_Max 1 (ShortCount ex_overlap)) = 3"
  "Setup ex_env ex_overlap = Inr ex_prepared"
  by code_simp+

lemma ex_overlap_run:
  "map_sum id (\<lambda>r. map HoldingWeight (TopHoldings r)) (RunAsync ex_env (utf16 ''run'') ex_overlap)
     = Inr [(utf16 ''A'', - 1 / 3), (utf16 ''B'', - 1 / 3), (utf16 ''C'', - 1 / 3)]"
  by code_simp

lemma disjoint_legs_weights_example:
  "Rebalance (ex_locals ex_lookback) 2 3 (ex_initial ex_lookback) = Inr (ex_after ex_lookback)
   \<and> LegsDisjoint ex_lookback ex_ranked
   \<and> LegWeights (positions (ex_after ex_lookback)) [utf16 ''A''] [utf16 ''C'']
        [utf16 ''A'', utf16 ''B'', utf16 ''C'']"
proof -
  have d: "distinct (symbols_of (ex_locals ex_lookback))"
    and n: "symbols_of (ex_locals ex_lookback) \<noteq> []"
    and s: "symbols_of (ex_locals ex_lookback) = [utf16 ''A'', utf16 ''B'', utf16 ''C'']"
    and c: "config_of (ex_locals ex_lookback) = ex_lookback"
    by (simp_all add: ex_locals_def utf16_def)
  have counts: "1 \<le> sint (LongCount (config_of (ex_locals ex_lookback)))
     \<and> 1 \<le> sint (ShortCount (config_of (ex_locals ex_lookback)))
     \<and> sint (LongCount (config_of (ex_locals ex_lookback)))
        + sint (ShortCount (config_of (ex_locals ex_lookback)))
      \<le> int (length (symbols_of (ex_locals ex_lookback)))"
    by (simp add: ex_locals_def ex_lookback_def ex_config_def)
  from disjoint_legs_weights [OF ex_lookback_rebalance(1) d n] counts
  obtain ranked where r: "RankedFor (ex_locals ex_lookback) 2 3 = Inr ranked"
    and dj: "LegsDisjoint (config_of (ex_locals ex_lookback)) ranked"
    and w: "LegWeights (positions (ex_after ex_lookback))
              (LongSelection (config_of (ex_locals ex_lookback)) ranked)
              (ShortSelection (config_of (ex_locals ex_lookback)) ranked)
              (symbols_of (ex_locals ex_lookback))"
    by blast
  from r ex_lookback_rebalance(2) have "ranked = ex_ranked"
    by simp
  with dj w have "LegsDisjoint ex_lookback ex_ranked"
    and "LegWeights (positions (ex_after ex_lookback)) [utf16 ''A''] [utf16 ''C'']
           [utf16 ''A'', utf16 ''B'', utf16 ''C'']"
    by (simp_all only: c s ex_lookback_rebalance(3,4))
  with ex_lookback_rebalance(1) show ?thesis
    by (intro conjI)
qed

text \<open>
  C4 (the failing input). Three symbols, \<open>longCount = 0\<close> and \<open>shortCount = 3\<close>: the setup
  check compares the 3 symbols with \<open>max(3, 0 + 3) = 3\<close> and passes; the selection raises
  the long count to \<open>max(1, 0) = 1\<close>, so the long leg is the top-ranked symbol and the
  short leg is all three symbols. The short weight \<open>-1/3\<close> overwrites the long weight:
  after the rebalance the long-leg symbol has a negative weight, the long weights sum to
  \<open>-1/3\<close>, and the run ends holding all three symbols short.
\<close>

theorem overlapping_legs_overwrite_the_long_weight:
  "int (length (NormalizedSymbols (Runtime ex_env) ex_overlap)) = 3
   \<and> sint (RequiredSymbolCount ex_overlap) = 3
   \<and> sint (Math_Max 1 (LongCount ex_overlap)) = 1
   \<and> Setup ex_env ex_overlap = Inr ex_prepared
   \<and> Rebalance (ex_locals ex_overlap) 2 3 (ex_initial ex_overlap) = Inr (ex_after ex_overlap)
   \<and> RankedFor (ex_locals ex_overlap) 2 3 = Inr ex_ranked
   \<and> LongSelection ex_overlap ex_ranked = [utf16 ''A'']
   \<and> ShortSelection ex_overlap ex_ranked = [utf16 ''A'', utf16 ''B'', utf16 ''C'']
   \<and> positions (ex_after ex_overlap)
       = [(utf16 ''A'', - 1 / 3), (utf16 ''B'', - 1 / 3), (utf16 ''C'', - 1 / 3)]
   \<and> map_of (positions (ex_after ex_overlap)) (utf16 ''A'') = Some (- 1 / 3)
   \<and> (\<Sum>s\<leftarrow>LongSelection ex_overlap ex_ranked. the (map_of (positions (ex_after ex_overlap)) s))
       = - 1 / 3
   \<and> map_sum id (\<lambda>r. map HoldingWeight (TopHoldings r))
        (RunAsync ex_env (utf16 ''run'') ex_overlap)
       = Inr [(utf16 ''A'', - 1 / 3), (utf16 ''B'', - 1 / 3), (utf16 ''C'', - 1 / 3)]"
proof -
  have a: "map_of (positions (ex_after ex_overlap)) (utf16 ''A'') = Some (- 1 / 3)"
    by (simp add: ex_overlap_rebalance(5))
  then have b: "(\<Sum>s\<leftarrow>LongSelection ex_overlap ex_ranked.
                   the (map_of (positions (ex_after ex_overlap)) s)) = - 1 / 3"
    by (simp add: ex_overlap_rebalance(3))
  from ex_overlap_setup(1,2,3,5) ex_overlap_rebalance a b ex_overlap_run show ?thesis
    by (intro conjI)
qed

section \<open>The fallback after a failed scoring\<close>

lemma sint_int32_of_int:
  "- 2147483648 \<le> k \<Longrightarrow> k < 2147483648 \<Longrightarrow> sint (word_of_int k :: int32) = k"
  by (simp add: sint_sbintrunc' signed_take_bit_int_eq_self)

lemma sint_int32_bounds: "- 2147483648 \<le> sint (w :: int32) \<and> sint w < 2147483648"
  using sint_ge [of w] sint_lt [of w] by simp

lemma sint_int32_add:
  "- 2147483648 \<le> sint a + sint b \<Longrightarrow> sint a + sint b < 2147483648
   \<Longrightarrow> sint (a + b :: int32) = sint a + sint b"
proof -
  assume r: "- 2147483648 \<le> sint a + sint b" "sint a + sint b < 2147483648"
  have "a + b = word_of_int (sint a + sint b)"
    by simp
  then show ?thesis
    using sint_int32_of_int [OF r] by simp
qed

lemma sint_int32_diff:
  "- 2147483648 \<le> sint a - sint b \<Longrightarrow> sint a - sint b < 2147483648
   \<Longrightarrow> sint (a - b :: int32) = sint a - sint b"
proof -
  assume r: "- 2147483648 \<le> sint a - sint b" "sint a - sint b < 2147483648"
  have "a - b = word_of_int (sint a - sint b)"
    by simp
  then show ?thesis
    using sint_int32_of_int [OF r] by simp
qed

lemma LoopIndices_range:
  assumes "0 \<le> sint (LookbackDays config)" and "sint (LookbackDays config) < 2147483646"
    and "count < 2147483648" and "i \<in> set (LoopIndices config count)"
  shows "sint (LookbackDays config) + 1 \<le> sint i \<and> sint i < int count"
proof -
  have one: "sint (1 :: int32) = 1" by simp
  have "sint (LookbackDays config + 1) = sint (LookbackDays config) + 1"
    using assms(1,2) by (simp add: sint_int32_add)
  with assms(4) obtain k where i: "i = word_of_int k"
    and k: "sint (LookbackDays config) + 1 \<le> k" "k \<le> int count - 1"
    by (auto simp add: LoopIndices_def)
  from k assms(1,3) have "sint (word_of_int k :: int32) = k"
    by (intro sint_int32_of_int) simp_all
  with i k show ?thesis by simp
qed

lemma Item_in_range:
  "0 \<le> sint i \<Longrightarrow> sint i < int (length xs) \<Longrightarrow> \<exists>x. Item xs i = Inr x \<and> x \<in> set xs"
  by (simp add: Item_def)

lemma loop_items:
  assumes "0 \<le> sint (LookbackDays config)" and "sint (LookbackDays config) < 2147483646"
    and "length ds < 2147483648" and "i \<in> set (LoopIndices config (length ds))"
  shows "\<exists>date prevDate lookbackDate.
           Item ds i = Inr date \<and> date \<in> set ds
         \<and> Item ds (i - 1) = Inr prevDate \<and> prevDate \<in> set ds
         \<and> Item ds (i - LookbackDays config) = Inr lookbackDate \<and> lookbackDate \<in> set ds"
proof -
  from LoopIndices_range [OF assms]
  have r: "sint (LookbackDays config) + 1 \<le> sint i" "sint i < int (length ds)"
    by simp_all
  have one: "sint (1 :: int32) = 1" by simp
  from r assms(1,3) have p: "sint (i - 1) = sint i - 1"
    using sint_int32_diff [of i 1] by (simp add: one)
  from r assms(1,3) have l: "sint (i - LookbackDays config) = sint i - sint (LookbackDays config)"
    by (intro sint_int32_diff) simp_all
  from r assms(1) have "\<exists>x. Item ds i = Inr x \<and> x \<in> set ds"
    by (intro Item_in_range) simp_all
  moreover from r assms(1) p have "\<exists>x. Item ds (i - 1) = Inr x \<and> x \<in> set ds"
    by (intro Item_in_range) simp_all
  moreover from r assms(1) l have "\<exists>x. Item ds (i - LookbackDays config) = Inr x \<and> x \<in> set ds"
    by (intro Item_in_range) simp_all
  ultimately show ?thesis by blast
qed

lemma Lookup_Inr_iff: "(\<exists>v. Lookup d k = Inr v) \<longleftrightarrow> k \<in> fst ` set d"
proof -
  have "(\<exists>v. Lookup d k = Inr v) \<longleftrightarrow> map_of d k \<noteq> None"
    by (simp add: Lookup_def split: option.splits)
  then show ?thesis
    by (simp add: map_of_eq_None_iff)
qed

lemma Lookup_mem: "distinct (map fst d) \<Longrightarrow> (k, v) \<in> set d \<Longrightarrow> Lookup d k = Inr v"
  by (simp add: Lookup_def)

lemma mapM_total:
  "(\<And>x. x \<in> set xs \<Longrightarrow> \<exists>y. f x = Inr y) \<Longrightarrow> \<exists>ys. mapM f xs = Inr ys"
proof (induction xs)
  case Nil
  show ?case by simp
next
  case (Cons x xs)
  from Cons.prems obtain y where "f x = Inr y" by auto
  moreover from Cons obtain ys where "mapM f xs = Inr ys" by auto
  ultimately show ?case by simp
qed

lemma BuildCloseMap_Inr:
  assumes "BuildCloseMap barsBySymbol = Inr closeMap"
  shows "closeMap = map (\<lambda>kvp. (fst kvp, map (\<lambda>x. (Date x, Close x)) (snd kvp))) barsBySymbol"
proof -
  from assms have "list_all2
      (\<lambda>kvp e. bindE (ToDictionary (map (\<lambda>x. (Date x, Close x)) (snd kvp)))
                 (\<lambda>byDate. Inr (fst kvp, byDate)) = Inr e)
      barsBySymbol closeMap"
    unfolding BuildCloseMap_def by (rule mapM_Inr)
  then have "list_all2 (\<lambda>kvp e. e = (fst kvp, map (\<lambda>x. (Date x, Close x)) (snd kvp)))
      barsBySymbol closeMap"
    by (rule list_all2_mono) (auto simp add: ToDictionary_def split: if_splits)
  then show ?thesis
    by (induction barsBySymbol closeMap rule: list_all2_induct) simp_all
qed

lemma Covers_CommonDates:
  assumes "BuildCloseMap barsBySymbol = Inr closeMap" and "distinct (map fst barsBySymbol)"
  shows "Covers closeMap (map fst barsBySymbol) (CommonDates barsBySymbol)"
  unfolding Covers_def
proof (intro ballI)
  fix s d
  assume s: "s \<in> set (map fst barsBySymbol)" and d: "d \<in> set (CommonDates barsBySymbol)"
  from s obtain bars where m: "(s, bars) \<in> set barsBySymbol" by auto
  then have ne: "map (\<lambda>x. map Date (snd x)) barsBySymbol \<noteq> []" by auto
  from d have "d \<in> (\<Inter>c\<in>set (map (\<lambda>x. map Date (snd x)) barsBySymbol). set c)"
    unfolding CommonDates_def set_IntersectDates [OF ne] .
  with m have dd: "d \<in> Date ` set bars" by force
  let ?cm = "map (\<lambda>kvp. (fst kvp, map (\<lambda>x. (Date x, Close x)) (snd kvp))) barsBySymbol"
  have keys: "distinct (map fst ?cm)"
    using assms(2) by (simp add: comp_def)
  from m have "(s, map (\<lambda>x. (Date x, Close x)) bars) \<in> set ?cm" by force
  with keys have "Lookup ?cm s = Inr (map (\<lambda>x. (Date x, Close x)) bars)"
    by (rule Lookup_mem)
  moreover from dd have "\<exists>v. Lookup (map (\<lambda>x. (Date x, Close x)) bars) d = Inr v"
    unfolding Lookup_Inr_iff by force
  ultimately show "\<exists>v. ClosePrice closeMap s d = Inr v"
    unfolding BuildCloseMap_Inr [OF assms(1)] ClosePrice_def by simp
qed

lemma Covers_Setup:
  assumes "Setup env config = Inr p" and "BuildCloseMap (prep_barsBySymbol p) = Inr closeMap"
  shows "Covers closeMap (prep_symbols p) (prep_commonDates p)"
proof -
  note s = Setup_Inr [OF assms(1)]
  from s LoadBars_dates [of env config "NormalizedSymbols (Runtime env) config" "prep_barsBySymbol p"]
  have keys: "map fst (prep_barsBySymbol p) = prep_symbols p" by simp
  have "distinct (prep_symbols p)"
    using s by (simp add: NormalizedSymbols_def)
  with keys have "distinct (map fst (prep_barsBySymbol p))" by simp
  from Covers_CommonDates [OF assms(2) this] keys s show ?thesis by simp
qed

lemma DailyReturnLoop_total:
  assumes "Covers closeMap symbols dates" and "HasAll pos symbols"
    and "prevDate \<in> set dates" and "date \<in> set dates"
  shows "set rest \<subseteq> set symbols
     \<Longrightarrow> \<exists>r. DailyReturnLoop closeMap pos prevDate date rest acc = Inr r"
proof (induction rest arbitrary: acc)
  case Nil
  show ?case by simp
next
  case (Cons symbol rest)
  then have m: "symbol \<in> set symbols" and sub: "set rest \<subseteq> set symbols" by simp_all
  from assms(1,3,4) m obtain prev curr where
    "ClosePrice closeMap symbol prevDate = Inr prev" "ClosePrice closeMap symbol date = Inr curr"
    unfolding Covers_def by blast
  moreover from assms(2) m obtain w where "Lookup pos symbol = Inr w"
    unfolding HasAll_def by blast
  ultimately show ?case
    using Cons.IH [OF sub] by simp
qed

lemma DefaultRanked_total:
  assumes "Covers closeMap symbols dates" and "lookbackDate \<in> set dates" and "date \<in> set dates"
  shows "\<exists>r. DefaultRanked closeMap symbols lookbackDate date = Inr r"
proof -
  have "\<exists>ys. mapM (\<lambda>symbol.
          bindE (ClosePrice closeMap symbol lookbackDate) (\<lambda>startClose.
          bindE (ClosePrice closeMap symbol date) (\<lambda>endClose.
            Inr (symbol, if startClose = 0 then 0 else endClose / startClose - 1))))
          symbols = Inr ys"
  proof (rule mapM_total)
    fix symbol assume "symbol \<in> set symbols"
    with assms obtain a b where
      "ClosePrice closeMap symbol lookbackDate = Inr a" "ClosePrice closeMap symbol date = Inr b"
      unfolding Covers_def by blast
    then show "\<exists>y. bindE (ClosePrice closeMap symbol lookbackDate) (\<lambda>startClose.
          bindE (ClosePrice closeMap symbol date) (\<lambda>endClose.
            Inr (symbol, if startClose = 0 then 0 else endClose / startClose - 1))) = Inr y"
      by simp
  qed
  then show ?thesis
    by (auto simp add: DefaultRanked_def)
qed

lemma HasAll_NextWeights: "HasAll (NextWeights config symbols ranked) symbols"
  by (simp add: HasAll_def Lookup_def map_of_NextWeights)

lemma HasAll_initial: "HasAll (positions (InitialState config symbols)) symbols"
  by (simp add: HasAll_def Lookup_def InitialState_def map_of_zero_weights)

lemma TransactionsLoop_total:
  assumes "Covers closeMap symbols dates" and "HasAll pos symbols" and "HasAll nextWeights symbols"
    and "date \<in> set dates"
  shows "set rest \<subseteq> set symbols
     \<Longrightarrow> \<exists>r. TransactionsLoop closeMap pos nextWeights dateText date currentNav rest acc = Inr r"
proof (induction rest arbitrary: acc)
  case Nil
  show ?case by simp
next
  case (Cons symbol rest)
  then have m: "symbol \<in> set symbols" and sub: "set rest \<subseteq> set symbols" by simp_all
  from assms(1,4) m obtain close where "ClosePrice closeMap symbol date = Inr close"
    unfolding Covers_def by blast
  moreover from assms(2,3) m obtain w w' where
    "Lookup pos symbol = Inr w" "Lookup nextWeights symbol = Inr w'"
    unfolding HasAll_def by blast
  ultimately show ?case
    using Cons.IH [OF sub] by (simp add: Let_def)
qed

lemma Rebalance_total:
  assumes "Covers (closeMap_of l) (symbols_of l) (commonDates_of l)"
    and "HasAll (positions st) (symbols_of l)"
    and "date \<in> set (commonDates_of l)"
    and "Item (commonDates_of l) (i - LookbackDays (config_of l)) = Inr lookbackDate"
    and "lookbackDate \<in> set (commonDates_of l)"
  shows "\<exists>st'. Rebalance l i date st = Inr st' \<and> HasAll (positions st') (symbols_of l)"
proof -
  from DefaultRanked_total [OF assms(1,5,3)] obtain defaultRanked where
    "DefaultRanked (closeMap_of l) (symbols_of l) lookbackDate date = Inr defaultRanked"
    by blast
  with assms(4) obtain ranked where r: "RankedFor l i date = Inr ranked"
    by (simp add: RankedFor_def)
  let ?next = "NextWeights (config_of l) (symbols_of l) ranked"
  have n: "HasAll ?next (symbols_of l)"
    by (rule HasAll_NextWeights)
  from TransactionsLoop_total [OF assms(1,2) n assms(3) subset_refl]
  obtain acc where "TransactionsLoop (closeMap_of l) (positions st) ?next
      (DateToString (env_of l) date) date (nav st) (symbols_of l) (totalTurnover st, txs st)
      = Inr acc"
    by blast
  with r n show ?thesis
    by (simp add: Rebalance_def Let_def)
qed

lemma positions_Advance [simp]:
  "positions (fst (Advance l date prevDate dailyReturn st)) = positions st"
  by (simp add: Advance_def Let_def)

lemma ComputeMetrics_total:
  assumes "\<forall>x y. \<exists>v. PowDecimal rt x y = Inr v" and "\<forall>x. \<exists>v. SqrtDecimal rt x = Inr v"
  shows "\<exists>m. ComputeMetrics rt navs returns turnover = Inr m"
proof -
  have p: "\<exists>v. bindE (PowDecimal rt x y) (\<lambda>power. Inr (power - 1)) = Inr v" for x y
    using assms(1) [rule_format, of x y] by auto
  have q: "\<exists>v. SqrtDecimal rt x = Inr v" for x
    using assms(2) by blast
  let ?count = "of_nat (length returns) :: decimal"
  let ?avg = "sum_list returns / ?count"
  obtain cagr where c: "(if 0 < hd navs
               then bindE (PowDecimal rt (last navs / hd navs) (1 / max (1 / 252) (?count / 252)))
                      (\<lambda>power. Inr (power - 1))
               else Inr 0) = Inr cagr"
    using p by (cases "0 < hd navs") auto
  obtain dailyStd where d: "SqrtDecimal rt ((\<Sum>r\<leftarrow>returns. (r - ?avg) * (r - ?avg)) / ?count)
      = Inr dailyStd"
    using q by blast
  obtain root where r: "SqrtDecimal rt 252 = Inr root"
    using q by blast
  show ?thesis
    unfolding ComputeMetrics_def Let_def c d r by simp
qed

lemma Undisturbed_metrics:
  "Undisturbed env \<Longrightarrow> \<exists>m. ComputeMetrics (Runtime env) navs returns turnover = Inr m"
  by (rule ComputeMetrics_total) (simp_all add: Undisturbed_def)

lemma Publish_total:
  assumes "Undisturbed (env_of l)"
  shows "\<exists>st'. Publish l i date points st = Inr st' \<and> positions st' = positions st"
proof -
  from Undisturbed_metrics [OF assms] obtain m where
    m: "ComputeMetrics (Runtime (env_of l)) (navSeries st) (map DailyReturn (dailyReturns st))
          (totalTurnover st) = Inr m"
    by blast
  from assms obtain x where
    "ComputeLiveStatsSnapshot (env_of l) date (StartDate (config_of l)) (nav st)
       (InitialCapital (config_of l)) m (map DailyReturn (dailyReturns st))
       (benchmarkDailyReturns st) (positions st) = Inr x"
    unfolding Undisturbed_def by blast
  with m show ?thesis
    by (simp add: Publish_def Let_def)
qed

lemma Step_total:
  assumes "Undisturbed (env_of l)"
    and "Covers (closeMap_of l) (symbols_of l) (commonDates_of l)"
    and "0 \<le> sint (LookbackDays (config_of l))"
    and "sint (LookbackDays (config_of l)) < 2147483646"
    and "length (commonDates_of l) < 2147483648"
    and "i \<in> set (LoopIndices (config_of l) (length (commonDates_of l)))"
    and "HasAll (positions st) (symbols_of l)"
  shows "\<exists>st'. Step l i st = Inr st' \<and> HasAll (positions st') (symbols_of l)"
proof -
  from loop_items [OF assms(3,4,5,6)] obtain date prevDate lookbackDate where
    d: "Item (commonDates_of l) i = Inr date" "date \<in> set (commonDates_of l)"
    and p: "Item (commonDates_of l) (i - 1) = Inr prevDate" "prevDate \<in> set (commonDates_of l)"
    and b: "Item (commonDates_of l) (i - LookbackDays (config_of l)) = Inr lookbackDate"
      "lookbackDate \<in> set (commonDates_of l)"
    by blast
  from DailyReturnLoop_total [OF assms(2,7) p(2) d(2) subset_refl]
  obtain dailyReturn where
    r: "DailyReturnLoop (closeMap_of l) (positions st) prevDate date (symbols_of l) 0
          = Inr dailyReturn"
    by blast
  obtain isRebalance where t: "IsRebalance (config_of l) i = Inr isRebalance"
    using IsRebalance_returns by blast
  let ?advanced = "Advance l date prevDate dailyReturn st"
  have h: "HasAll (positions (fst ?advanced)) (symbols_of l)"
    using assms(7) by simp
  have "\<exists>st2. (if isRebalance then Rebalance l i date (fst ?advanced) else Inr (fst ?advanced))
             = Inr st2 \<and> HasAll (positions st2) (symbols_of l)"
    using Rebalance_total [OF assms(2) h d(2) b] h by simp
  then obtain st2 where
    s2: "(if isRebalance then Rebalance l i date (fst ?advanced) else Inr (fst ?advanced))
           = Inr st2"
    and h2: "HasAll (positions st2) (symbols_of l)"
    by blast
  from Publish_total [OF assms(1), of i date "snd ?advanced" st2] obtain st' where
    "Publish l i date (snd ?advanced) st2 = Inr st'" "positions st' = positions st2"
    by blast
  with h2 s2 d p r t assms(1) show ?thesis
    by (simp add: Step_def Let_def Undisturbed_def)
qed

lemma Loop_total:
  assumes "Undisturbed (env_of l)"
    and "Covers (closeMap_of l) (symbols_of l) (commonDates_of l)"
    and "0 \<le> sint (LookbackDays (config_of l))"
    and "sint (LookbackDays (config_of l)) < 2147483646"
    and "length (commonDates_of l) < 2147483648"
  shows "set indices \<subseteq> set (LoopIndices (config_of l) (length (commonDates_of l)))
     \<Longrightarrow> HasAll (positions st) (symbols_of l)
     \<Longrightarrow> \<exists>st'. Loop l indices st = Inr st'"
proof (induction indices arbitrary: st)
  case Nil
  show ?case by simp
next
  case (Cons i rest)
  then have i: "i \<in> set (LoopIndices (config_of l) (length (commonDates_of l)))"
    and sub: "set rest \<subseteq> set (LoopIndices (config_of l) (length (commonDates_of l)))"
    by simp_all
  from Step_total [OF assms i Cons.prems(2)] obtain st1 where
    "Step l i st = Inr st1" "HasAll (positions st1) (symbols_of l)"
    by blast
  with Cons.IH [OF sub] show ?case by simp
qed

lemma Finish_total:
  assumes "Undisturbed (env_of l)" and "commonDates_of l \<noteq> []"
  shows "\<exists>r. Finish l runId pythonExecution st = Inr r"
proof -
  from Undisturbed_metrics [OF assms(1)] obtain m where
    m: "ComputeMetrics (Runtime (env_of l)) (navSeries st) (map DailyReturn (dailyReturns st))
          (totalTurnover st) = Inr m"
    by blast
  from assms(1) obtain x where
    "ComputeLiveStatsSnapshot (env_of l) (last (commonDates_of l)) (StartDate (config_of l))
       (nav st) (InitialCapital (config_of l)) m (map DailyReturn (dailyReturns st))
       (benchmarkDailyReturns st) (positions st) = Inr x"
    unfolding Undisturbed_def by blast
  with m assms(2) show ?thesis
    by (simp add: Finish_def LastDate_def)
qed

lemma Finish_PythonExecution:
  "Finish l runId pythonExecution st = Inr r \<Longrightarrow> PythonExecution r = pythonExecution"
  by (auto simp add: Finish_def bindE_def split: sum.splits)

lemma Simulate_PythonExecution:
  "Simulate env runId config p closeMap scoring = Inr r \<Longrightarrow> PythonExecution r = fst scoring"
  by (auto simp add: Simulate_def Let_def bindE_def split: sum.splits
      dest: Finish_PythonExecution)

lemma BenchmarkStart_total:
  assumes "commonDates \<noteq> []" and "benchmarkMap \<noteq> []"
  shows "\<exists>b. BenchmarkStart benchmarkMap commonDates = Inr b"
proof -
  from assms(1) have "\<exists>x. Item commonDates 0 = Inr x"
    by (simp add: Item_def)
  then obtain first where "Item commonDates 0 = Inr first" by blast
  with assms(2) show ?thesis
    by (cases benchmarkMap) (simp_all add: BenchmarkStart_def split: option.splits)
qed

lemma Simulate_total:
  assumes "Undisturbed env"
    and "Covers closeMap (prep_symbols p) (prep_commonDates p)"
    and "0 \<le> sint (LookbackDays config)" and "sint (LookbackDays config) < 2147483646"
    and "length (prep_commonDates p) < 2147483648"
    and "prep_commonDates p \<noteq> []"
    and "distinct (map Date (prep_benchmarkBars p))" and "prep_benchmarkBars p \<noteq> []"
  shows "\<exists>r. Simulate env runId config p closeMap scoring = Inr r"
proof -
  let ?bm = "map (\<lambda>x. (Date x, Close x)) (prep_benchmarkBars p)"
  have dict: "ToDictionary ?bm = Inr ?bm"
    using assms(7) by (simp add: ToDictionary_def comp_def)
  from assms(8) have "?bm \<noteq> []" by simp
  from BenchmarkStart_total [OF assms(6) this] obtain bs where
    bs: "BenchmarkStart ?bm (prep_commonDates p) = Inr bs"
    by blast
  let ?l = "\<lparr>env_of = env, config_of = config, symbols_of = prep_symbols p,
                commonDates_of = prep_commonDates p, closeMap_of = closeMap,
                pythonSignals_of = snd scoring, benchmarkMap_of = ?bm,
                benchmarkStart_of = bs\<rparr>"
  have "\<exists>st. Loop ?l (LoopIndices config (length (prep_commonDates p)))
               (InitialState config (prep_symbols p)) = Inr st"
    by (rule Loop_total) (simp_all add: assms(1-5) HasAll_initial)
  then obtain st where
    st: "Loop ?l (LoopIndices config (length (prep_commonDates p)))
           (InitialState config (prep_symbols p)) = Inr st"
    by blast
  from Finish_total [of ?l runId "fst scoring" st] assms(1,6) obtain r where
    "Finish ?l runId (fst scoring) st = Inr r"
    by auto
  with dict bs st show ?thesis
    by (simp add: Simulate_def Let_def)
qed

lemma ApplyFallback_failed:
  assumes "Requested (fst pythonResult)" and "\<not> Succeeded (fst pythonResult)"
  shows "ApplyFallback rt config pythonResult =
           (if FallbackToBuiltinOnPythonError config
            then Inr (FallbackSummary (fst pythonResult), None)
            else Inl (PythonFailure rt (fst pythonResult)))"
  using assms by (simp add: ApplyFallback_def FallbackSummary_def Let_def)

lemma Ranked_None [simp]: "Ranked None dateKey symbols defaultRanked = defaultRanked"
  by (simp add: Ranked_def)

lemma RankedFor_builtin:
  "pythonSignals_of l = None \<Longrightarrow>
   RankedFor l i date =
     bindE (Item (commonDates_of l) (i - LookbackDays (config_of l)))
       (\<lambda>lookbackDate. DefaultRanked (closeMap_of l) (symbols_of l) lookbackDate date)"
  by (simp add: RankedFor_def bindE_def split: sum.splits)

lemma Setup_nonempty:
  assumes "Setup env config = Inr p"
    and "0 \<le> sint (LookbackDays config)" and "sint (LookbackDays config) < 2147483646"
  shows "prep_commonDates p \<noteq> []"
proof -
  have two: "sint (2 :: int32) = 2" by simp
  from assms(2,3) have "sint (LookbackDays config + 2) = sint (LookbackDays config) + 2"
    using sint_int32_add [of "LookbackDays config" 2] by (simp add: two)
  moreover from Setup_Inr [OF assms(1)]
  have "sint (LookbackDays config + 2) < int (length (prep_commonDates p))"
    by blast
  ultimately have "0 < int (length (prep_commonDates p))"
    using assms(2) by linarith
  then show ?thesis by auto
qed

lemma RunAsync_completes:
  assumes "Setup env config = Inr p"
    and "BuildCloseMap (prep_barsBySymbol p) = Inr closeMap"
    and "Favourable env config p"
  shows "\<exists>r. Simulate env runId config p closeMap scoring = Inr r"
proof -
  from assms(3) have f: "Undisturbed env" "0 \<le> sint (LookbackDays config)"
    "sint (LookbackDays config) < 2147483646" "length (prep_commonDates p) < 2147483648"
    "distinct (map Date (prep_benchmarkBars p))" "prep_benchmarkBars p \<noteq> []"
    by (simp_all add: Favourable_def)
  from Simulate_total [OF f(1) Covers_Setup [OF assms(1,2)] f(2,3,4)
      Setup_nonempty [OF assms(1) f(2,3)] f(5,6)]
  show ?thesis .
qed

subsection \<open>The ranking of a run without signals\<close>

lemma Publish_positions: "Publish l i date points st = Inr st' \<Longrightarrow> positions st' = positions st"
  by (auto simp add: Publish_def Let_def bindE_def split: sum.splits)

text \<open>
  One day of a run without external signals: on a rebalance day the positions become the
  weights of the built-in ranking, the trailing return from the look-back date to the
  day; on any other day they stay.
\<close>

lemma Step_ranks_builtin:
  assumes "pythonSignals_of l = None" and "Step l i st = Inr st'"
  shows "\<exists>date isRebalance.
           Item (commonDates_of l) i = Inr date
         \<and> IsRebalance (config_of l) i = Inr isRebalance
         \<and> (if isRebalance
            then \<exists>lookbackDate ranked.
                   Item (commonDates_of l) (i - LookbackDays (config_of l)) = Inr lookbackDate
                 \<and> DefaultRanked (closeMap_of l) (symbols_of l) lookbackDate date = Inr ranked
                 \<and> positions st' = NextWeights (config_of l) (symbols_of l) ranked
            else positions st' = positions st)"
proof -
  from assms(2) obtain date prevDate dailyReturn isRebalance rebalanced where
    d: "Item (commonDates_of l) i = Inr date"
    and t: "IsRebalance (config_of l) i = Inr isRebalance"
    and r: "(if isRebalance then Rebalance l i date (fst (Advance l date prevDate dailyReturn st))
             else Inr (fst (Advance l date prevDate dailyReturn st))) = Inr rebalanced"
    and p: "Publish l i date (snd (Advance l date prevDate dailyReturn st)) rebalanced = Inr st'"
    by (auto simp add: Step_def Let_def bindE_def split: if_splits sum.splits)
  note same = Publish_positions [OF p]
  show ?thesis
  proof (cases isRebalance)
    case True
    with r have "Rebalance l i date (fst (Advance l date prevDate dailyReturn st)) = Inr rebalanced"
      by simp
    from Rebalance_positions [OF this] obtain ranked where
      k: "RankedFor l i date = Inr ranked"
      and w: "positions rebalanced = NextWeights (config_of l) (symbols_of l) ranked"
      by blast
    from k obtain lookbackDate where
      "Item (commonDates_of l) (i - LookbackDays (config_of l)) = Inr lookbackDate"
      "DefaultRanked (closeMap_of l) (symbols_of l) lookbackDate date = Inr ranked"
      unfolding RankedFor_builtin [OF assms(1)]
      by (auto simp add: bindE_def split: sum.splits)
    with d t True same w show ?thesis
      by auto
  next
    case False
    with r have "rebalanced = fst (Advance l date prevDate dailyReturn st)"
      by simp
    with d t False same show ?thesis
      by auto
  qed
qed

lemma Loop_append: "Loop l (xs @ ys) st = bindE (Loop l xs st) (Loop l ys)"
  by (induction xs arbitrary: st) (simp_all add: bindE_def split: sum.splits)

lemma Loop_day:
  assumes "Loop l (pre @ i # post) st = Inr st'"
  shows "\<exists>s s'. Loop l pre st = Inr s \<and> Step l i s = Inr s' \<and> Loop l post s' = Inr st'"
  using assms unfolding Loop_append
  by (auto simp add: bindE_def split: sum.splits)

lemma Simulate_Inr:
  assumes "Simulate env runId config p closeMap scoring = Inr r"
  shows "\<exists>benchmarkMap benchmarkStart st.
           Loop \<lparr>env_of = env, config_of = config, symbols_of = prep_symbols p,
                 commonDates_of = prep_commonDates p, closeMap_of = closeMap,
                 pythonSignals_of = snd scoring, benchmarkMap_of = benchmarkMap,
                 benchmarkStart_of = benchmarkStart\<rparr>
             (LoopIndices config (length (prep_commonDates p)))
             (InitialState config (prep_symbols p)) = Inr st
         \<and> DailyReturns r = dailyReturns st
         \<and> Transactions r = txs st
         \<and> PythonExecution r = fst scoring
         \<and> (\<exists>finalMetrics. TopHoldings r = TopHoldingsOf (positions st) finalMetrics)"
proof -
  from assms obtain benchmarkMap benchmarkStart st where
    loop: "Loop \<lparr>env_of = env, config_of = config, symbols_of = prep_symbols p,
                 commonDates_of = prep_commonDates p, closeMap_of = closeMap,
                 pythonSignals_of = snd scoring, benchmarkMap_of = benchmarkMap,
                 benchmarkStart_of = benchmarkStart\<rparr>
             (LoopIndices config (length (prep_commonDates p)))
             (InitialState config (prep_symbols p)) = Inr st"
    and fin: "Finish \<lparr>env_of = env, config_of = config, symbols_of = prep_symbols p,
                 commonDates_of = prep_commonDates p, closeMap_of = closeMap,
                 pythonSignals_of = snd scoring, benchmarkMap_of = benchmarkMap,
                 benchmarkStart_of = benchmarkStart\<rparr> runId (fst scoring) st = Inr r"
    by (auto simp add: Simulate_def Let_def bindE_def split: sum.splits)
  from fin have "DailyReturns r = dailyReturns st \<and> Transactions r = txs st
         \<and> PythonExecution r = fst scoring
         \<and> (\<exists>finalMetrics. TopHoldings r = TopHoldingsOf (positions st) finalMetrics)"
    by (auto simp add: Finish_def bindE_def split: sum.splits)
  with loop show ?thesis
    by blast
qed

text \<open>
  The days a run simulates are the calendar positions from \<open>LookbackDays + 1\<close> to the last
  one, in order: each adds one daily-return point, dated with the calendar date at that
  position.
\<close>

lemma Rebalance_dailyReturns:
  "Rebalance l i date st = Inr st' \<Longrightarrow> dailyReturns st' = dailyReturns st"
  by (auto simp add: Rebalance_def Let_def bindE_def split: sum.splits)

lemma Publish_dailyReturns:
  "Publish l i date points st = Inr st' \<Longrightarrow> dailyReturns st' = dailyReturns st"
  by (auto simp add: Publish_def Let_def bindE_def split: sum.splits)

lemma Step_day:
  assumes "Step l i st = Inr st'"
  shows "0 \<le> sint i \<and> sint i < int (length (commonDates_of l))
       \<and> map ReturnDate (dailyReturns st')
           = map ReturnDate (dailyReturns st)
               @ [DateToString (env_of l) (commonDates_of l ! nat (sint i))]"
proof -
  from assms obtain date prevDate dailyReturn isRebalance rebalanced where
    d: "Item (commonDates_of l) i = Inr date"
    and t: "IsRebalance (config_of l) i = Inr isRebalance"
    and r: "(if isRebalance then Rebalance l i date (fst (Advance l date prevDate dailyReturn st))
             else Inr (fst (Advance l date prevDate dailyReturn st))) = Inr rebalanced"
    and p: "Publish l i date (snd (Advance l date prevDate dailyReturn st)) rebalanced = Inr st'"
    by (auto simp add: Step_def Let_def bindE_def split: if_splits sum.splits)
  from d have range: "0 \<le> sint i \<and> sint i < int (length (commonDates_of l))"
    and date: "date = commonDates_of l ! nat (sint i)"
    by (auto simp add: Item_def split: if_splits)
  from r have "dailyReturns rebalanced = dailyReturns (fst (Advance l date prevDate dailyReturn st))"
    by (cases isRebalance) (simp_all add: Rebalance_dailyReturns)
  with Publish_dailyReturns [OF p]
  have "dailyReturns st' = dailyReturns st @ [DailyReturnPoint (DateToString (env_of l) date) dailyReturn]"
    by (simp add: Advance_def Let_def)
  with range date show ?thesis
    by (simp add: ReturnDate_def)
qed

lemma Loop_days:
  "Loop l indices st = Inr st' \<Longrightarrow>
     (\<forall>i\<in>set indices. 0 \<le> sint i \<and> sint i < int (length (commonDates_of l)))
   \<and> map ReturnDate (dailyReturns st')
       = map ReturnDate (dailyReturns st)
           @ map (\<lambda>i. DateToString (env_of l) (commonDates_of l ! nat (sint i))) indices"
proof (induction indices arbitrary: st)
  case Nil
  then show ?case by simp
next
  case (Cons i rest)
  from Cons.prems obtain s where s: "Step l i st = Inr s" and t: "Loop l rest s = Inr st'"
    by (auto simp add: bindE_def split: sum.splits)
  from Step_day [OF s] Cons.IH [OF t] show ?case
    by simp
qed

lemma run_simulates_the_calendar:
  assumes "Setup env config = Inr p" and "RunAsync env runId config = Inr r"
  shows "map ReturnDate (DailyReturns r)
           = map (\<lambda>i. DateToString env (prep_commonDates p ! nat (sint i)))
               (LoopIndices config (length (prep_commonDates p)))
       \<and> (\<forall>i\<in>set (LoopIndices config (length (prep_commonDates p))).
             0 \<le> sint i \<and> sint i < int (length (prep_commonDates p)))"
proof -
  from assms obtain closeMap scoring where
    "Simulate env runId config p closeMap scoring = Inr r"
    by (auto simp add: RunAsync_def bindE_def split: sum.splits)
  from Simulate_Inr [OF this] obtain benchmarkMap benchmarkStart st where
    loop: "Loop \<lparr>env_of = env, config_of = config, symbols_of = prep_symbols p,
                 commonDates_of = prep_commonDates p, closeMap_of = closeMap,
                 pythonSignals_of = snd scoring, benchmarkMap_of = benchmarkMap,
                 benchmarkStart_of = benchmarkStart\<rparr>
             (LoopIndices config (length (prep_commonDates p)))
             (InitialState config (prep_symbols p)) = Inr st"
    and days: "DailyReturns r = dailyReturns st"
    by blast
  from Loop_days [OF loop] days show ?thesis
    by (simp add: InitialState_def)
qed

text \<open>
  After a requested, unsuccessful scoring: with the fallback enabled the run is the
  simulation without external signals under the summary with \<open>UsedFallback\<close> set and the
  message extended, so every result carries that summary; with the fallback disabled the
  run ends with the \<open>InvalidOperationException\<close> whose message embeds the error kind, the
  message and the diagnostic excerpt.
\<close>

lemma scoring_failure_falls_back_or_aborts:
  assumes "Setup env config = Inr p"
    and "BuildCloseMap (prep_barsBySymbol p) = Inr closeMap"
    and "pythonStrategyService env config (prep_commonDates p) (prep_barsBySymbol p)
           = Inr pythonResult"
    and "Requested (fst pythonResult)" and "\<not> Succeeded (fst pythonResult)"
  shows "(FallbackToBuiltinOnPythonError config \<longrightarrow>
            RunAsync env runId config
              = Simulate env runId config p closeMap (FallbackSummary (fst pythonResult), None)
          \<and> UsedFallback (FallbackSummary (fst pythonResult))
          \<and> Message (FallbackSummary (fst pythonResult))
              = Message (fst pythonResult) @ utf16 '' Falling back to built-in momentum ranking.''
          \<and> (\<forall>r. RunAsync env runId config = Inr r
                \<longrightarrow> PythonExecution r = FallbackSummary (fst pythonResult))
          \<and> (Favourable env config p \<longrightarrow> (\<exists>r. RunAsync env runId config = Inr r)))
       \<and> (\<not> FallbackToBuiltinOnPythonError config \<longrightarrow>
            RunAsync env runId config = Inl (PythonFailure (Runtime env) (fst pythonResult))
          \<and> ExnMessage (PythonFailure (Runtime env) (fst pythonResult))
              = utf16 ''Python strategy failed (''
                  @ (case ErrorType (fst pythonResult) of None \<Rightarrow> utf16 ''error'' | Some t \<Rightarrow> t)
                  @ utf16 ''): '' @ Message (fst pythonResult) @ utf16 ''.''
                  @ (if IsNullOrWhiteSpace (Runtime env) (StderrSnippet (fst pythonResult))
                     then []
                     else utf16 '' stderr: ''
                            @ (case StderrSnippet (fst pythonResult) of
                                 None \<Rightarrow> [] | Some snippet \<Rightarrow> snippet)))"
proof -
  have run: "RunAsync env runId config =
      bindE (ApplyFallback (Runtime env) config pythonResult) (\<lambda>scoring.
        Simulate env runId config p closeMap scoring)"
    by (simp add: RunAsync_def assms(1,2,3))
  note fb = ApplyFallback_failed [OF assms(4,5), of "Runtime env" config]
  show ?thesis
  proof (cases "FallbackToBuiltinOnPythonError config")
    case True
    let ?s = "(FallbackSummary (fst pythonResult), None :: Signals option)"
    from True fb run have eq: "RunAsync env runId config = Simulate env runId config p closeMap ?s"
      by simp
    have a: "UsedFallback (FallbackSummary (fst pythonResult))"
      and b: "Message (FallbackSummary (fst pythonResult))
              = Message (fst pythonResult) @ utf16 '' Falling back to built-in momentum ranking.''"
      by (simp_all add: FallbackSummary_def)
    have c: "\<forall>r. RunAsync env runId config = Inr r
                \<longrightarrow> PythonExecution r = FallbackSummary (fst pythonResult)"
      unfolding eq using Simulate_PythonExecution [of env runId config p closeMap ?s] by simp
    have d: "Favourable env config p \<longrightarrow> (\<exists>r. RunAsync env runId config = Inr r)"
      unfolding eq using RunAsync_completes [OF assms(1,2)] by blast
    from True eq a b c d show ?thesis
      by blast
  next
    case False
    with fb run
    have "RunAsync env runId config = Inl (PythonFailure (Runtime env) (fst pythonResult))"
      by simp
    with False show ?thesis
      by (simp add: PythonFailure_def Let_def)
  qed
qed

text \<open>
  Every simulated day of a run that has fallen back ranks by the built-in rule: the run
  is a loop over the calendar positions from \<open>LookbackDays + 1\<close>, and at every position
  where the rebalance test holds the positions become the weights of the trailing-return
  ranking.
\<close>

lemma fallback_run_ranks_builtin:
  assumes "Setup env config = Inr p"
    and "BuildCloseMap (prep_barsBySymbol p) = Inr closeMap"
    and "pythonStrategyService env config (prep_commonDates p) (prep_barsBySymbol p)
           = Inr pythonResult"
    and "Requested (fst pythonResult)" and "\<not> Succeeded (fst pythonResult)"
    and "FallbackToBuiltinOnPythonError config"
    and "RunAsync env runId config = Inr r"
    and "LoopIndices config (length (prep_commonDates p)) = pre @ i # post"
  shows "\<exists>l s s' date isRebalance.
           env_of l = env \<and> pythonSignals_of l = None
         \<and> config_of l = config \<and> symbols_of l = prep_symbols p
         \<and> commonDates_of l = prep_commonDates p \<and> closeMap_of l = closeMap
         \<and> Loop l pre (InitialState config (prep_symbols p)) = Inr s
         \<and> Step l i s = Inr s'
         \<and> Item (prep_commonDates p) i = Inr date
         \<and> IsRebalance config i = Inr isRebalance
         \<and> (if isRebalance
            then \<exists>lookbackDate ranked.
                   Item (prep_commonDates p) (i - LookbackDays config) = Inr lookbackDate
                 \<and> DefaultRanked closeMap (prep_symbols p) lookbackDate date = Inr ranked
                 \<and> positions s' = NextWeights config (prep_symbols p) ranked
            else positions s' = positions s)"
proof -
  from scoring_failure_falls_back_or_aborts [OF assms(1-5), of runId] assms(6,7)
  have "Simulate env runId config p closeMap (FallbackSummary (fst pythonResult), None) = Inr r"
    by simp
  from Simulate_Inr [OF this] obtain benchmarkMap benchmarkStart st where
    loop: "Loop \<lparr>env_of = env, config_of = config, symbols_of = prep_symbols p,
                 commonDates_of = prep_commonDates p, closeMap_of = closeMap,
                 pythonSignals_of = None, benchmarkMap_of = benchmarkMap,
                 benchmarkStart_of = benchmarkStart\<rparr>
             (LoopIndices config (length (prep_commonDates p)))
             (InitialState config (prep_symbols p)) = Inr st"
    by auto
  let ?l = "\<lparr>env_of = env, config_of = config, symbols_of = prep_symbols p,
                 commonDates_of = prep_commonDates p, closeMap_of = closeMap,
                 pythonSignals_of = None, benchmarkMap_of = benchmarkMap,
                 benchmarkStart_of = benchmarkStart\<rparr>"
  from loop assms(8) have "Loop ?l (pre @ i # post) (InitialState config (prep_symbols p)) = Inr st"
    by simp
  from Loop_day [OF this] obtain s s' where
    s: "Loop ?l pre (InitialState config (prep_symbols p)) = Inr s" and s': "Step ?l i s = Inr s'"
    by blast
  have none: "pythonSignals_of ?l = None"
    by simp
  from Step_ranks_builtin [OF none s'] obtain date isRebalance where
    "Item (commonDates_of ?l) i = Inr date"
    "IsRebalance (config_of ?l) i = Inr isRebalance"
    "if isRebalance
     then \<exists>lookbackDate ranked.
            Item (commonDates_of ?l) (i - LookbackDays (config_of ?l)) = Inr lookbackDate
          \<and> DefaultRanked (closeMap_of ?l) (symbols_of ?l) lookbackDate date = Inr ranked
          \<and> positions s' = NextWeights (config_of ?l) (symbols_of ?l) ranked
     else positions s' = positions s"
    by blast
  then have "env_of ?l = env \<and> pythonSignals_of ?l = None
         \<and> config_of ?l = config \<and> symbols_of ?l = prep_symbols p
         \<and> commonDates_of ?l = prep_commonDates p \<and> closeMap_of ?l = closeMap
         \<and> Loop ?l pre (InitialState config (prep_symbols p)) = Inr s
         \<and> Step ?l i s = Inr s'
         \<and> Item (prep_commonDates p) i = Inr date
         \<and> IsRebalance config i = Inr isRebalance
         \<and> (if isRebalance
            then \<exists>lookbackDate ranked.
                   Item (prep_commonDates p) (i - LookbackDays config) = Inr lookbackDate
                 \<and> DefaultRanked closeMap (prep_symbols p) lookbackDate date = Inr ranked
                 \<and> positions s' = NextWeights config (prep_symbols p) ranked
            else positions s' = positions s)"
    using s s' by (simp cong: if_cong)
  then show ?thesis
    by blast
qed

lemma ex_closeMap_built: "BuildCloseMap ex_barsBySymbol = Inr ex_closeMap"
  by code_simp

lemma ex_strict_Setup: "Setup ex_env ex_strict = Inr ex_prepared"
  by code_simp


text \<open>
  The example run, whose scoring has failed: with the fallback it returns a result that
  carries the summary of the fallback; without, it ends with the exception.
\<close>

lemma ex_fallback_run:
  "map_sum id (\<lambda>r. (UsedFallback (PythonExecution r), Message (PythonExecution r),
                     map HoldingWeight (TopHoldings r)))
     (RunAsync ex_env (utf16 ''run'') ex_config)
   = Inr (True,
          utf16 ''Python strategy exited with non-zero status. Falling back to built-in momentum ranking.'',
          [(utf16 ''A'', 1), (utf16 ''C'', - 1)])"
  by code_simp

lemma ex_strict_run:
  "RunAsync ex_env (utf16 ''run'') ex_strict
     = Inl (Exn InvalidOperationException
         (utf16 ''Python strategy failed (runtime): Python strategy exited with non-zero status.. stderr: boom''))"
  by code_simp

subsection \<open>A run that has fallen back and does not complete\<close>






end
